theory Spec2Isabelle
  imports Main
begin

section \<open>google-drive-upload-git-action: a shallow embedding of main.go\<close>

text \<open>
  The program reads its configuration from the action inputs, expands a glob pattern
  and uploads every match to a remote drive. Everything the Go code obtains from outside
  (action inputs, the file system, base64 decoding, the drive service) is a parameter of
  the model; the decision logic of \<^verbatim>\<open>main.go\<close> is translated function by function.
  Errors are values, \<^verbatim>\<open>githubactions.Fatalf\<close> (which ends the process with status 1) and
  a nil-pointer panic are explicit outcomes, and the remote calls, the local files opened
  and the lines logged are recorded in an explicit world state.
\<close>

subsection \<open>Functions of the Go standard library used by main.go (Unix build)\<close>

definition sep :: char where
  "sep = CHR ''/''"

definition quote :: char where
  "quote = CHR 0x27"

text \<open>
  \<^verbatim>\<open>strconv.ParseBool\<close>: the value and the error (\<open>None\<close> is Go's nil error,
  \<open>NumError\<close> carries the function name, the input and the cause).
\<close>

datatype num_error = NumError string string string

definition ParseBool :: "string \<Rightarrow> bool \<times> num_error option" where
  "ParseBool str =
     (if str \<in> set [''1'', ''t'', ''T'', ''true'', ''TRUE'', ''True''] then (True, None)
      else if str \<in> set [''0'', ''f'', ''F'', ''false'', ''FALSE'', ''False''] then (False, None)
      else (False, Some (NumError ''ParseBool'' str ''invalid syntax'')))"

text \<open>\<^verbatim>\<open>strings.TrimSuffix\<close>.\<close>

definition TrimSuffix :: "string \<Rightarrow> string \<Rightarrow> string" where
  "TrimSuffix s suffix =
     (if length suffix \<le> length s \<and> drop (length s - length suffix) s = suffix
      then take (length s - length suffix) s else s)"

text \<open>
  \<^verbatim>\<open>strings.Split\<close> with a separator of one byte: cut at every occurrence of the
  separator; a string without separator (also the empty one) yields itself.
\<close>

function Split :: "string \<Rightarrow> char \<Rightarrow> string list" where
  "Split s c =
     (case dropWhile (\<lambda>x. x \<noteq> c) s of
        [] \<Rightarrow> [s]
      | _ # rest \<Rightarrow> takeWhile (\<lambda>x. x \<noteq> c) s # Split rest c)"
  by pat_completeness auto
termination
proof (relation "measure (\<lambda>(s, c). length s)")
  show "wf (measure (\<lambda>(s, c). length s))" by simp
next
  fix s :: string and c x21 x22
  assume "dropWhile (\<lambda>x. x \<noteq> c) s = x21 # x22"
  then have "length x22 < length (dropWhile (\<lambda>x. x \<noteq> c) s)" by simp
  also have "\<dots> \<le> length s" by (rule length_dropWhile_le)
  finally show "((x22, c), (s, c)) \<in> measure (\<lambda>(s, c). length s)" by simp
qed

declare Split.simps [simp del]

text \<open>
  \<^verbatim>\<open>filepath.Base\<close>: the last element of the path, after trailing separators are
  removed; \<^verbatim>\<open>"."\<close> for the empty path and \<^verbatim>\<open>"/"\<close> for a path of separators only.
\<close>

definition stripTrailing :: "string \<Rightarrow> string" where
  "stripTrailing path = rev (dropWhile (\<lambda>x. x = sep) (rev path))"

definition lastElement :: "string \<Rightarrow> string" where
  "lastElement path = rev (takeWhile (\<lambda>x. x \<noteq> sep) (rev path))"

definition Base :: "string \<Rightarrow> string" where
  "Base path =
     (if path = [] then ''.''
      else let p = lastElement (stripTrailing path)
           in if p = [] then [sep] else p)"

text \<open>
  \<^verbatim>\<open>filepath.Clean\<close>. \<open>out\<close> is the buffer written so far, \<open>p\<close> the part of the path
  still to read, \<open>dotdot\<close> the length of the prefix of \<open>out\<close> that a \<^verbatim>\<open>..\<close> element
  must not remove.
\<close>

function backtrackLoop :: "string \<Rightarrow> nat \<Rightarrow> nat \<Rightarrow> nat" where
  "backtrackLoop buf dotdot w =
     (if w > dotdot \<and> buf ! w \<noteq> sep then backtrackLoop buf dotdot (w - 1) else w)"
  by pat_completeness auto
termination
  by (relation "measure (\<lambda>(buf, dotdot, w). w)") auto

declare backtrackLoop.simps [simp del]

definition backtrack :: "string \<Rightarrow> nat \<Rightarrow> string" where
  "backtrack out dotdot = take (backtrackLoop out dotdot (length out - 1)) out"

definition endsElement :: "string \<Rightarrow> bool" where
  "endsElement p = (case p of [] \<Rightarrow> True | x # _ \<Rightarrow> x = sep)"

function cleanLoop :: "bool \<Rightarrow> string \<Rightarrow> string \<Rightarrow> nat \<Rightarrow> string" where
  "cleanLoop rooted [] out dotdot = out"
| "cleanLoop rooted (x # p) out dotdot =
     (if x = sep then cleanLoop rooted p out dotdot
      else if x = CHR ''.'' \<and> endsElement p then cleanLoop rooted p out dotdot
      else if x = CHR ''.'' \<and> (case p of [] \<Rightarrow> False | y # q \<Rightarrow> y = CHR ''.'' \<and> endsElement q) then
        (if length out > dotdot then cleanLoop rooted (tl p) (backtrack out dotdot) dotdot
         else if \<not> rooted then
           (let out' = (if length out > 0 then out @ [sep] else out) @ ''..''
            in cleanLoop rooted (tl p) out' (length out'))
         else cleanLoop rooted (tl p) out dotdot)
      else
        (let out' = (if rooted \<and> length out \<noteq> 1 \<or> \<not> rooted \<and> length out \<noteq> 0
                     then out @ [sep] else out)
         in cleanLoop rooted (dropWhile (\<lambda>y. y \<noteq> sep) p)
              (out' @ x # takeWhile (\<lambda>y. y \<noteq> sep) p) dotdot))"
  by pat_completeness auto
termination
proof (relation "measure (\<lambda>(rooted, p, out, dotdot). length p)")
  show "wf (measure (\<lambda>(rooted, p, out, dotdot). length p))" by simp
next
  fix rooted :: bool and x :: char and p out :: string and dotdot :: nat and out' :: string
  have "length (dropWhile (\<lambda>y. y \<noteq> sep) p) \<le> length p" by (rule length_dropWhile_le)
  then show "((rooted, dropWhile (\<lambda>y. y \<noteq> sep) p, out' @ x # takeWhile (\<lambda>y. y \<noteq> sep) p, dotdot),
              (rooted, x # p, out, dotdot)) \<in> measure (\<lambda>(rooted, p, out, dotdot). length p)"
    by simp
qed (auto split: list.splits)

declare cleanLoop.simps [simp del]

definition Clean :: "string \<Rightarrow> string" where
  "Clean path =
     (if path = [] then ''.''
      else let rooted = (hd path = sep);
               out = (if rooted then cleanLoop True (tl path) [sep] 1
                      else cleanLoop False path [] 0)
           in if out = [] then ''.'' else out)"

text \<open>
  \<^verbatim>\<open>filepath.Dir\<close>: everything up to and including the last separator, cleaned.
\<close>

definition Dir :: "string \<Rightarrow> string" where
  "Dir path = Clean (rev (dropWhile (\<lambda>x. x \<noteq> sep) (rev path)))"

subsection \<open>The outside world\<close>

text \<open>
  \<^verbatim>\<open>drive.File\<close>, with the fields main.go reads or writes. An unset field has Go's
  zero value: the empty string, the empty list.
\<close>

record drive_file =
  file_Id :: string
  file_Name :: string
  file_MimeType :: string
  file_Parents :: "string list"

text \<open>\<^verbatim>\<open>os.FileInfo\<close> (only \<^verbatim>\<open>IsDir\<close> is read) and an open \<^verbatim>\<open>*os.File\<close>.\<close>

datatype file_info = FileInfo (IsDir: bool)

datatype os_file = OsFile (opened_path: string)

text \<open>
  The three remote calls main.go builds, with every option it sets. \<open>update_RemoveParents\<close>
  is the \<^verbatim>\<open>RemoveParents\<close> option of \<^verbatim>\<open>FilesUpdateCall\<close>; main.go never sets it.
\<close>

record files_list_call =
  list_Fields :: string
  list_Q :: string
  list_IncludeItemsFromAllDrives :: bool
  list_Corpora :: string
  list_SupportsAllDrives :: bool
  list_IncludeTeamDriveItems :: bool

record files_create_call =
  create_file :: drive_file
  create_Fields :: string
  create_Media :: "os_file option"
  create_SupportsAllDrives :: bool

record files_update_call =
  update_fileId :: string
  update_file :: drive_file
  update_AddParents :: string
  update_RemoveParents :: string
  update_Media :: "os_file option"
  update_SupportsAllDrives :: bool

datatype request =
    ListReq files_list_call
  | CreateReq files_create_call
  | UpdateReq files_update_call

text \<open>
  A non-nil \<^verbatim>\<open>*drive.Service\<close>: what each call's \<^verbatim>\<open>Do()\<close> answers, given the requests
  issued before it. \<open>Inl\<close> is the error of the call.
\<close>

record service =
  list_Do :: "request list \<Rightarrow> files_list_call \<Rightarrow> string + drive_file list"
  create_Do :: "request list \<Rightarrow> files_create_call \<Rightarrow> string + drive_file"
  update_Do :: "request list \<Rightarrow> files_update_call \<Rightarrow> string + drive_file"

text \<open>
  What the process reads from its environment: the action inputs
  (\<^verbatim>\<open>githubactions.GetInput\<close>), the file system (\<^verbatim>\<open>filepath.Glob\<close>, \<^verbatim>\<open>os.Lstat\<close>,
  \<^verbatim>\<open>os.Open\<close>), \<^verbatim>\<open>base64.StdEncoding.DecodeString\<close> and \<^verbatim>\<open>drive.NewService\<close>.
  \<open>Lstat\<close> describes the path itself and does not follow a symbolic link; \<open>Stat\<close>
  (\<^verbatim>\<open>os.Stat\<close>) describes what the path resolves to. main.go never calls \<^verbatim>\<open>os.Stat\<close>:
  the field is there to say what a path resolves to.
\<close>

record os =
  GetInput :: "string \<Rightarrow> string"
  Glob :: "string \<Rightarrow> string + string list"
  Lstat :: "string \<Rightarrow> string + file_info"
  Stat :: "string \<Rightarrow> string + file_info"
  Open :: "string \<Rightarrow> string + os_file"
  DecodeString :: "string \<Rightarrow> string + string"
  NewService :: "string \<Rightarrow> string + service"

text \<open>
  What the process has done so far: the remote calls issued, the local files opened
  and not closed, and the lines written through \<^verbatim>\<open>githubactions\<close> (format and arguments).
\<close>

datatype arg = Str string | Strs "string list" | Num nat

datatype log_line =
    InfoLine string "arg list"
  | DebugLine string "arg list"
  | WarningLine string "arg list"
  | ErrorLine string "arg list"
  | MaskLine string

record world =
  calls :: "request list"
  open_files :: "os_file list"
  logged :: "log_line list"

definition Infof :: "string \<Rightarrow> arg list \<Rightarrow> world \<Rightarrow> world" where
  "Infof msg args w = w\<lparr>logged := logged w @ [InfoLine msg args]\<rparr>"

definition Debugf :: "string \<Rightarrow> arg list \<Rightarrow> world \<Rightarrow> world" where
  "Debugf msg args w = w\<lparr>logged := logged w @ [DebugLine msg args]\<rparr>"

definition Warningf :: "string \<Rightarrow> arg list \<Rightarrow> world \<Rightarrow> world" where
  "Warningf msg args w = w\<lparr>logged := logged w @ [WarningLine msg args]\<rparr>"

definition Errorf :: "string \<Rightarrow> arg list \<Rightarrow> world \<Rightarrow> world" where
  "Errorf msg args w = w\<lparr>logged := logged w @ [ErrorLine msg args]\<rparr>"

definition AddMask :: "string \<Rightarrow> world \<Rightarrow> world" where
  "AddMask p w = w\<lparr>logged := logged w @ [MaskLine p]\<rparr>"

text \<open>
  How the process ends: \<open>Exit0\<close> when main returns, \<open>Exit1\<close> through
  \<^verbatim>\<open>githubactions.Fatalf\<close> (which logs an error and calls \<^verbatim>\<open>os.Exit(1)\<close>), \<open>Crash\<close>
  on a run-time panic.
\<close>

datatype exit = Exit0 | Exit1 | Crash

definition Fatalf :: "string \<Rightarrow> arg list \<Rightarrow> world \<Rightarrow> exit \<times> world" where
  "Fatalf msg args w = (Exit1, Errorf msg args w)"

text \<open>
  How a function other than main fails: with a Go error value (its message), or with the
  panic of a nil \<^verbatim>\<open>*drive.Service\<close> being dereferenced.
\<close>

datatype failure = Err string | Panic

definition Files_List_Do ::
  "service option \<Rightarrow> files_list_call \<Rightarrow> world \<Rightarrow> (failure + drive_file list) \<times> world" where
  "Files_List_Do svc c w =
     (case svc of
        None \<Rightarrow> (Inl Panic, w)
      | Some s \<Rightarrow>
          ((case list_Do s (calls w) c of Inl e \<Rightarrow> Inl (Err e) | Inr r \<Rightarrow> Inr r),
           w\<lparr>calls := calls w @ [ListReq c]\<rparr>))"

definition Files_Create_Do ::
  "service option \<Rightarrow> files_create_call \<Rightarrow> world \<Rightarrow> (failure + drive_file) \<times> world" where
  "Files_Create_Do svc c w =
     (case svc of
        None \<Rightarrow> (Inl Panic, w)
      | Some s \<Rightarrow>
          ((case create_Do s (calls w) c of Inl e \<Rightarrow> Inl (Err e) | Inr d \<Rightarrow> Inr d),
           w\<lparr>calls := calls w @ [CreateReq c]\<rparr>))"

definition Files_Update_Do ::
  "service option \<Rightarrow> files_update_call \<Rightarrow> world \<Rightarrow> (failure + drive_file) \<times> world" where
  "Files_Update_Do svc c w =
     (case svc of
        None \<Rightarrow> (Inl Panic, w)
      | Some s \<Rightarrow>
          ((case update_Do s (calls w) c of Inl e \<Rightarrow> Inl (Err e) | Inr d \<Rightarrow> Inr d),
           w\<lparr>calls := calls w @ [UpdateReq c]\<rparr>))"

definition folderMimeType :: string where
  "folderMimeType = ''application/vnd.google-apps.folder''"

subsection \<open>The remote calls that main.go builds\<close>

text \<open>
  \<open>folderQuery\<close> and \<open>folderCreate\<close> are the calls of \<^verbatim>\<open>createDriveDirectory\<close>,
  \<open>fileQuery\<close> is the search of \<^verbatim>\<open>uploadFile\<close>, \<open>fileCreate\<close> and \<open>fileUpdate\<close> are
  the two transfers of \<^verbatim>\<open>uploadToDrive\<close>.
\<close>

definition folderQuery :: "string \<Rightarrow> files_list_call" where
  "folderQuery name =
     \<lparr>list_Fields = ''files(name,id,mimeType,parents)'',
      list_Q = ''name='' @ [quote] @ name @ [quote] @
               '' and mimeType='' @ [quote] @ folderMimeType @ [quote],
      list_IncludeItemsFromAllDrives = True, list_Corpora = ''allDrives'',
      list_SupportsAllDrives = True, list_IncludeTeamDriveItems = False\<rparr>"

definition fileQuery :: "string \<Rightarrow> files_list_call" where
  "fileQuery name =
     \<lparr>list_Fields = ''files(name,id,mimeType,parents)'',
      list_Q = ''name='' @ [quote] @ name @ [quote],
      list_IncludeItemsFromAllDrives = True, list_Corpora = ''allDrives'',
      list_SupportsAllDrives = True, list_IncludeTeamDriveItems = True\<rparr>"

definition folderCreate :: "string \<Rightarrow> string \<Rightarrow> files_create_call" where
  "folderCreate folderId name =
     \<lparr>create_file = \<lparr>file_Id = [], file_Name = name, file_MimeType = folderMimeType,
                     file_Parents = [folderId]\<rparr>,
      create_Fields = ''id'', create_Media = None, create_SupportsAllDrives = True\<rparr>"

definition fileCreate :: "os_file \<Rightarrow> string \<Rightarrow> string \<Rightarrow> string \<Rightarrow> files_create_call" where
  "fileCreate file folderId name mimeType =
     \<lparr>create_file = \<lparr>file_Id = [], file_Name = name, file_MimeType = mimeType,
                     file_Parents = [folderId]\<rparr>,
      create_Fields = [], create_Media = Some file, create_SupportsAllDrives = True\<rparr>"

definition fileUpdate ::
  "os_file \<Rightarrow> string \<Rightarrow> drive_file \<Rightarrow> string \<Rightarrow> string \<Rightarrow> files_update_call" where
  "fileUpdate file folderId driveFile name mimeType =
     \<lparr>update_fileId = file_Id driveFile,
      update_file = \<lparr>file_Id = [], file_Name = name, file_MimeType = mimeType,
                     file_Parents = []\<rparr>,
      update_AddParents = folderId, update_RemoveParents = [],
      update_Media = Some file, update_SupportsAllDrives = True\<rparr>"

subsection \<open>uploadToDrive\<close>

text \<open>
  \<open>uploadCall\<close> is the conditional of lines 53 to 66: an update of \<^verbatim>\<open>driveFile\<close> when it
  is not nil, a create otherwise. \<open>uploadToDrive\<close> records the file it opens among the
  open files; nothing in main.go closes a file, so the model has no such step.
\<close>

definition uploadCall ::
  "service option \<Rightarrow> os_file \<Rightarrow> string \<Rightarrow> drive_file option \<Rightarrow> string \<Rightarrow> string \<Rightarrow> world \<Rightarrow>
   (failure + drive_file) \<times> world" where
  "uploadCall svc file folderId driveFile name mimeType w =
     (case driveFile of
        Some d \<Rightarrow> Files_Update_Do svc (fileUpdate file folderId d name mimeType) w
      | None \<Rightarrow> Files_Create_Do svc (fileCreate file folderId name mimeType) w)"

definition uploadToDrive ::
  "os \<Rightarrow> service option \<Rightarrow> string \<Rightarrow> string \<Rightarrow> drive_file option \<Rightarrow> string \<Rightarrow> string \<Rightarrow>
   world \<Rightarrow> (failure + unit) \<times> world" where
  "uploadToDrive os svc filename folderId driveFile name mimeType w =
     (case Lstat os filename of
        Inl err \<Rightarrow> (Inl (Err (''unable to stat file: '' @ err)), w)
      | Inr fi \<Rightarrow>
          if IsDir fi
          then (Inr (), Infof ''%s is a directory. skipping upload.'' [Str filename] w)
          else
            (case Open os filename of
               Inl err \<Rightarrow>
                 (Inl (Err (''opening file with filename: '' @ filename @
                            '' failed with error: '' @ err)), w)
             | Inr file \<Rightarrow>
                 (case uploadCall svc file folderId driveFile name mimeType
                         (w\<lparr>open_files := open_files w @ [file]\<rparr>) of
                    (Inl Panic, w') \<Rightarrow> (Inl Panic, w')
                  | (Inl (Err err), w') \<Rightarrow>
                      (Inl (Err (''uploading file with filename: '' @ filename @
                                 '' failed with error: '' @ err)), w')
                  | (Inr _, w') \<Rightarrow> (Inr (), Debugf ''uploaded/updated file.'' [] w'))))"

subsection \<open>createDriveDirectory\<close>

text \<open>The two nested loops over the listing and over each object's parents.\<close>

fun scanParents ::
  "string \<Rightarrow> string \<Rightarrow> drive_file \<Rightarrow> string list \<Rightarrow> nat \<times> string \<times> world \<Rightarrow>
   nat \<times> string \<times> world" where
  "scanParents folderId name i [] st = st"
| "scanParents folderId name i (p # ps) (foundFolders, nextFolderId, w) =
     (if p = folderId
      then scanParents folderId name i ps
             (foundFolders + 1, file_Id i, Infof ''Found existing folder %s.'' [Str name] w)
      else scanParents folderId name i ps (foundFolders, nextFolderId, w))"

fun scanFolders ::
  "string \<Rightarrow> string \<Rightarrow> drive_file list \<Rightarrow> nat \<times> string \<times> world \<Rightarrow> nat \<times> string \<times> world" where
  "scanFolders folderId name [] st = st"
| "scanFolders folderId name (i # rest) st =
     scanFolders folderId name rest (scanParents folderId name i (file_Parents i) st)"

definition createDriveDirectory ::
  "service option \<Rightarrow> string \<Rightarrow> string \<Rightarrow> world \<Rightarrow> (failure + string) \<times> world" where
  "createDriveDirectory svc folderId name w =
     (case Files_List_Do svc (folderQuery name)
             (Infof ''Checking for existing folder %s'' [Str name] w) of
        (Inl Panic, w1) \<Rightarrow> (Inl Panic, w1)
      | (Inl (Err err), w1) \<Rightarrow> (Inl (Err (''unable to retrieve files: '' @ err)), w1)
      | (Inr r, w1) \<Rightarrow>
          (case scanFolders folderId name r (0, [], w1) of
             (foundFolders, nextFolderId, w2) \<Rightarrow>
               if foundFolders = 0
               then
                 (case Files_Create_Do svc (folderCreate folderId name)
                         (Infof ''Creating folder: %s'' [Str name] w2) of
                    (Inl Panic, w3) \<Rightarrow> (Inl Panic, w3)
                  | (Inl (Err err), w3) \<Rightarrow>
                      (Inl (Err (''creating folder failed with error: '' @ err)), w3)
                  | (Inr d, w3) \<Rightarrow> (Inr (file_Id d), w3))
               else (Inr nextFolderId, w2)))"

subsection \<open>uploadFile\<close>

text \<open>The inner loop over the parents of a name match; it stops at the first hit.\<close>

fun parentLoop :: "string \<Rightarrow> string list \<Rightarrow> world \<Rightarrow> bool \<times> world" where
  "parentLoop folderId [] w = (False, w)"
| "parentLoop folderId (p # ps) w =
     (if p = folderId then (True, Debugf ''file found in expected folder'' [] w)
      else parentLoop folderId ps w)"

text \<open>The loop over the listing; \<open>currentFile\<close> is nil (\<open>None\<close>) at the start.\<close>

fun findLoop ::
  "string \<Rightarrow> string \<Rightarrow> drive_file list \<Rightarrow> drive_file option \<Rightarrow> world \<Rightarrow>
   drive_file option \<times> world" where
  "findLoop name folderId [] currentFile w = (currentFile, w)"
| "findLoop name folderId (i # rest) currentFile w =
     (if name = file_Name i
      then
        (case parentLoop folderId (file_Parents i) w of
           (found, w') \<Rightarrow>
             if found then (Some i, w') else findLoop name folderId rest (Some i) w')
      else findLoop name folderId rest currentFile w)"

definition uploadFile ::
  "os \<Rightarrow> service option \<Rightarrow> string \<Rightarrow> string \<Rightarrow> string \<Rightarrow> string \<Rightarrow> bool \<Rightarrow> world \<Rightarrow>
   (failure + unit) \<times> world" where
  "uploadFile os svc filename folderId name mimeType overwriteFlag w =
     (let w0 = Infof ''target file name: %s'' [Str name] w
      in if \<not> overwriteFlag
         then uploadToDrive os svc filename folderId None name mimeType w0
         else
           (case Files_List_Do svc (fileQuery name) w0 of
              (Inl Panic, w1) \<Rightarrow> (Inl Panic, w1)
            | (Inl (Err err), w1) \<Rightarrow> (Inl (Err (''unable to retrieve files: '' @ err)), w1)
            | (Inr r, w1) \<Rightarrow>
                (case findLoop name folderId r None
                        (Infof ''Files: %d'' [Num (length r)] w1) of
                   (None, w2) \<Rightarrow>
                     uploadToDrive os svc filename folderId None name mimeType
                       (Infof ''No similar files found. Creating a new file'' [] w2)
                 | (Some currentFile, w2) \<Rightarrow>
                     uploadToDrive os svc filename folderId (Some currentFile) name mimeType
                       (Infof ''Overwriting file: %s (%s)''
                          [Str (file_Name currentFile), Str (file_Id currentFile)] w2))))"

subsection \<open>main\<close>

text \<open>The names of the action inputs, as the constants of main.go spell them.\<close>

definition filenameInput :: string where
  "filenameInput = ''filename''"

definition nameInput :: string where
  "nameInput = ''name''"

definition folderIdInput :: string where
  "folderIdInput = ''folderId''"

definition credentialsInput :: string where
  "credentialsInput = ''credentials''"

definition overwriteInput :: string where
  "overwriteInput = ''false''"

definition mimeTypeInput :: string where
  "mimeTypeInput = ''mimeType''"

definition useCompleteSourceName :: string where
  "useCompleteSourceName = ''useCompleteSourceFilenameAsName''"

definition mirrorDirectoryStructureInput :: string where
  "mirrorDirectoryStructureInput = ''mirrorDirectoryStructureInput''"

definition namePrefixInput :: string where
  "namePrefixInput = ''namePrefix''"

definition missingInput :: "string \<Rightarrow> world \<Rightarrow> exit \<times> world" where
  "missingInput inputName w = Fatalf (''missing input '' @ [quote] @ inputName @ [quote]) [] w"

text \<open>The local variables of main that the loop over the files reads and never writes.\<close>

record vars =
  main_name :: string
  main_mimeType :: string
  main_filenamePrefix :: string
  main_overwriteFlag :: bool
  main_useCompleteSourceFilenameAsNameFlag :: bool
  main_mirrorDirectoryStructureFlag :: bool
  main_useSourceFilename :: bool
  main_originalFolderId :: string

text \<open>
  The inner loop of main over the directory segments: each call of
  \<^verbatim>\<open>createDriveDirectory\<close> assigns \<^verbatim>\<open>folderId\<close>; an error is fatal.
\<close>

fun mirrorLoop ::
  "service option \<Rightarrow> string \<Rightarrow> string list \<Rightarrow> world \<Rightarrow> (exit + string) \<times> world" where
  "mirrorLoop svc folderId [] w = (Inr folderId, w)"
| "mirrorLoop svc folderId (dir # rest) w =
     (case createDriveDirectory svc folderId dir w of
        (Inl Panic, w') \<Rightarrow> (Inl Crash, w')
      | (Inl (Err err), w') \<Rightarrow>
          (Inl Exit1,
           Errorf ''creating directory %s failed with error: %s'' [Str dir, Str err] w')
      | (Inr folderId', w') \<Rightarrow> mirrorLoop svc folderId' rest w')"

text \<open>The target name of a file (lines 181 to 186), before the prefix is put in front.\<close>

definition targetName :: "vars \<Rightarrow> string \<Rightarrow> string" where
  "targetName v file =
     (if main_useCompleteSourceFilenameAsNameFlag v then file
      else if main_useSourceFilename v \<or> main_name v = [] then Base file
      else main_name v)"

text \<open>
  The body of the loop over the files. \<open>folderId\<close> is the variable of main that the loop
  assigns; the body returns its value at the end of the iteration, or how the process
  ended. \<open>mirrorDirectories\<close> is the block of lines 170 to 179.
\<close>

definition mirrorDirectories ::
  "service option \<Rightarrow> vars \<Rightarrow> string \<Rightarrow> string \<Rightarrow> world \<Rightarrow> (exit + string) \<times> world" where
  "mirrorDirectories svc v folderId file w =
     (if main_mirrorDirectoryStructureFlag v
      then mirrorLoop svc folderId (Split (Dir file) sep)
             (Infof ''Mirroring directory structure: %v'' [Strs (Split (Dir file) sep)] w)
      else (Inr folderId, w))"

definition loopBody ::
  "os \<Rightarrow> service option \<Rightarrow> vars \<Rightarrow> string \<Rightarrow> string \<Rightarrow> world \<Rightarrow> (exit + string) \<times> world" where
  "loopBody os svc v folderId file w =
     (let folderId = main_originalFolderId v;
          w0 = Infof ''Processing file %s'' [Str file] w
      in case mirrorDirectories svc v folderId file w0 of
           (Inl ex, w1) \<Rightarrow> (Inl ex, w1)
         | (Inr folderId1, w1) \<Rightarrow>
             if targetName v file = []
             then (case Fatalf ''could not discover target file name'' [] w1 of
                     (ex, w2) \<Rightarrow> (Inl ex, w2))
             else
               (case uploadFile os svc file folderId1
                       (if main_filenamePrefix v \<noteq> []
                        then main_filenamePrefix v @ targetName v file
                        else targetName v file)
                       (main_mimeType v) (main_overwriteFlag v) w1 of
                  (Inl Panic, w2) \<Rightarrow> (Inl Crash, w2)
                | (Inl (Err err), w2) \<Rightarrow>
                    (case Fatalf ''uploading file failed with error: %s'' [Str err] w2 of
                       (ex, w3) \<Rightarrow> (Inl ex, w3))
                | (Inr _, w2) \<Rightarrow> (Inr folderId1, w2)))"

fun filesLoop ::
  "os \<Rightarrow> service option \<Rightarrow> vars \<Rightarrow> string \<Rightarrow> string list \<Rightarrow> world \<Rightarrow> exit \<times> world" where
  "filesLoop os svc v folderId [] w = (Exit0, w)"
| "filesLoop os svc v folderId (file # rest) w =
     (case loopBody os svc v folderId file w of
        (Inl ex, w') \<Rightarrow> (ex, w')
      | (Inr folderId', w') \<Rightarrow> filesLoop os svc v folderId' rest w')"

text \<open>
  The three flag inputs (lines 94 to 101, 115 to 122 and 124 to 131): an empty value logs
  that the flag is disabled; any other value goes through \<^verbatim>\<open>strconv.ParseBool\<close>, whose
  error is dropped.
\<close>

definition readOverwrite :: "os \<Rightarrow> world \<Rightarrow> bool \<times> world" where
  "readOverwrite os w =
     (if GetInput os overwriteInput = []
      then (False, Warningf ''%s is disabled.'' [Str overwriteInput] w)
      else (fst (ParseBool (GetInput os overwriteInput)), w))"

definition readUseCompleteSourceFilenameAsName :: "os \<Rightarrow> world \<Rightarrow> bool \<times> world" where
  "readUseCompleteSourceFilenameAsName os w =
     (if GetInput os useCompleteSourceName = []
      then (False, Infof ''%s is disabled.'' [Str useCompleteSourceName] w)
      else (fst (ParseBool (GetInput os useCompleteSourceName)), w))"

definition readMirrorDirectoryStructure :: "os \<Rightarrow> world \<Rightarrow> bool \<times> world" where
  "readMirrorDirectoryStructure os w =
     (if GetInput os mirrorDirectoryStructureInput = []
      then (False, Infof ''%s is disabled.'' [Str mirrorDirectoryStructureInput] w)
      else (fst (ParseBool (GetInput os mirrorDirectoryStructureInput)), w))"

text \<open>
  main from the credentials on (lines 136 to 200): the flags and the other inputs are
  read; \<open>v\<close> holds them, \<^verbatim>\<open>useSourceFilename\<close> excepted, which is set here. When
  \<^verbatim>\<open>drive.NewService\<close> fails, main logs the error and goes on with the nil service it
  was given.
\<close>

definition mainUpload :: "os \<Rightarrow> string list \<Rightarrow> vars \<Rightarrow> world \<Rightarrow> exit \<times> world" where
  "mainUpload os files v w =
     (if GetInput os credentialsInput = [] then missingInput credentialsInput w
      else
        (case DecodeString os (GetInput os credentialsInput) of
           Inl err \<Rightarrow>
             Fatalf (''base64 decoding of '' @ [quote] @ ''credentials'' @ [quote] @
                     '' failed with error: '' @ err) []
               (AddMask (GetInput os credentialsInput) w)
         | Inr decodedCredentials \<Rightarrow>
             (let creds = TrimSuffix decodedCredentials [CHR 0x0A];
                  w1 = AddMask creds (AddMask (GetInput os credentialsInput) w)
              in case NewService os creds of
                   Inl err \<Rightarrow>
                     filesLoop os None (v\<lparr>main_useSourceFilename := length files > 1\<rparr>)
                       (main_originalFolderId v) files
                       (Errorf ''creating drive client failed with error: %s'' [Str err] w1)
                 | Inr s \<Rightarrow>
                     filesLoop os (Some s) (v\<lparr>main_useSourceFilename := length files > 1\<rparr>)
                       (main_originalFolderId v) files w1)))"

definition main :: "os \<Rightarrow> world \<Rightarrow> exit \<times> world" where
  "main os w =
     (if GetInput os filenameInput = [] then missingInput filenameInput w
      else
        (case Glob os (GetInput os filenameInput) of
           Inl err \<Rightarrow>
             Fatalf (''Invalid filename pattern: '' @ err) [] (Infof ''files: %v'' [Strs []] w)
         | Inr files \<Rightarrow>
             if length files = 0
             then Fatalf (''No file found! pattern: '' @ GetInput os filenameInput) []
                    (Infof ''files: %v'' [Strs files] w)
             else
               (case readOverwrite os (Infof ''files: %v'' [Strs files] w) of
                  (overwriteFlag, w1) \<Rightarrow>
                    if GetInput os folderIdInput = [] then missingInput folderIdInput w1
                    else
                      (case readUseCompleteSourceFilenameAsName os w1 of
                         (useCompleteSourceFilenameAsNameFlag, w2) \<Rightarrow>
                           (case readMirrorDirectoryStructure os w2 of
                              (mirrorDirectoryStructureFlag, w3) \<Rightarrow>
                                mainUpload os files
                                  \<lparr>main_name = GetInput os nameInput,
                                   main_mimeType = GetInput os mimeTypeInput,
                                   main_filenamePrefix = GetInput os namePrefixInput,
                                   main_overwriteFlag = overwriteFlag,
                                   main_useCompleteSourceFilenameAsNameFlag =
                                     useCompleteSourceFilenameAsNameFlag,
                                   main_mirrorDirectoryStructureFlag =
                                     mirrorDirectoryStructureFlag,
                                   main_useSourceFilename = False,
                                   main_originalFolderId = GetInput os folderIdInput\<rparr>
                                  w3)))))"

subsection \<open>Vocabulary of the properties\<close>

text \<open>
  A request that transfers a local file: an update, or a create that carries media
  (the create of a folder carries none).
\<close>

definition isUpload :: "request \<Rightarrow> bool" where
  "isUpload r =
     (case r of
        ListReq c \<Rightarrow> False
      | CreateReq c \<Rightarrow> create_Media c \<noteq> None
      | UpdateReq c \<Rightarrow> True)"

text \<open>The queries of the list calls among some requests, in the order of the calls.\<close>

fun listQueries :: "request list \<Rightarrow> string list" where
  "listQueries [] = []"
| "listQueries (ListReq c # rs) = list_Q c # listQueries rs"
| "listQueries (CreateReq c # rs) = listQueries rs"
| "listQueries (UpdateReq c # rs) = listQueries rs"

text \<open>Two worlds that differ in the lines logged at most.\<close>

definition sameEffects :: "world \<Rightarrow> world \<Rightarrow> bool" where
  "sameEffects w w' = (calls w = calls w' \<and> open_files w = open_files w')"

text \<open>Two results that agree but for the lines logged.\<close>

definition simRes :: "'a \<times> world \<Rightarrow> 'a \<times> world \<Rightarrow> bool" where
  "simRes p q = (fst p = fst q \<and> sameEffects (snd p) (snd q))"

text \<open>
  The specification's reading of directory mirroring, to compare the loop of main with:
  the resolver is folded over the segments from the left, each call taking the result
  of the one before as its parent; once a call has failed, nothing more is done.
\<close>

definition spec_resolveStep ::
  "service option \<Rightarrow> (exit + string) \<times> world \<Rightarrow> string \<Rightarrow> (exit + string) \<times> world" where
  "spec_resolveStep svc acc segment =
     (case acc of
        (Inl ex, w) \<Rightarrow> (Inl ex, w)
      | (Inr parent, w) \<Rightarrow>
          (case createDriveDirectory svc parent segment w of
             (Inl Panic, w') \<Rightarrow> (Inl Crash, w')
           | (Inl (Err err), w') \<Rightarrow>
               (Inl Exit1,
                Errorf ''creating directory %s failed with error: %s''
                  [Str segment, Str err] w')
           | (Inr folderId', w') \<Rightarrow> (Inr folderId', w')))"

definition spec_resolveChain ::
  "service option \<Rightarrow> string \<Rightarrow> string list \<Rightarrow> world \<Rightarrow> (exit + string) \<times> world" where
  "spec_resolveChain svc root segments w = foldl (spec_resolveStep svc) (Inr root, w) segments"

subsection \<open>Concrete environments\<close>

definition demo_world :: world where
  "demo_world = \<lparr>calls = [], open_files = [], logged = []\<rparr>"

text \<open>A listing with one object of the wanted name, attached to another folder.\<close>

definition demo_listing :: "drive_file list" where
  "demo_listing =
     [\<lparr>file_Id = ''X'', file_Name = ''report.txt'', file_MimeType = ''text/plain'',
       file_Parents = [''other'']\<rparr>]"

text \<open>
  A service that answers every search with the listing \<open>r\<close>, gives every created
  object the identifier \<^verbatim>\<open>new\<close> and accepts every update.
\<close>

definition listing_svc :: "drive_file list \<Rightarrow> service" where
  "listing_svc r =
     \<lparr>list_Do = (\<lambda>h c. Inr r),
      create_Do = (\<lambda>h c. Inr ((create_file c)\<lparr>file_Id := ''new''\<rparr>)),
      update_Do = (\<lambda>h c. Inr ((update_file c)\<lparr>file_Id := update_fileId c\<rparr>))\<rparr>"

definition demo_svc :: service where
  "demo_svc = listing_svc demo_listing"

text \<open>A listing with two folders under the parent \<^verbatim>\<open>P\<close>.\<close>

definition dup_listing :: "drive_file list" where
  "dup_listing =
     [\<lparr>file_Id = ''A'', file_Name = ''docs'', file_MimeType = folderMimeType,
       file_Parents = [''P'']\<rparr>,
      \<lparr>file_Id = ''B'', file_Name = ''docs'', file_MimeType = folderMimeType,
       file_Parents = [''P'']\<rparr>]"

text \<open>A service whose every call fails.\<close>

definition failing_svc :: service where
  "failing_svc =
     \<lparr>list_Do = (\<lambda>h c. Inl ''backend error''),
      create_Do = (\<lambda>h c. Inl ''backend error''),
      update_Do = (\<lambda>h c. Inl ''backend error'')\<rparr>"


text \<open>
  A file system with the directory \<^verbatim>\<open>docs\<close>, the symbolic link \<^verbatim>\<open>linkdir\<close> to a
  directory, and regular files everywhere else; the glob pattern matches \<open>matches\<close>, the
  inputs are \<open>inputs\<close>.
\<close>

definition demo_os :: "(string \<Rightarrow> string) \<Rightarrow> string list \<Rightarrow> os" where
  "demo_os inputs matches =
     \<lparr>GetInput = inputs,
      Glob = (\<lambda>pattern. Inr matches),
      Lstat = (\<lambda>path. Inr (FileInfo (path = ''docs''))),
      Stat = (\<lambda>path. Inr (FileInfo (path = ''docs'' \<or> path = ''linkdir''))),
      Open = (\<lambda>path. Inr (OsFile path)),
      DecodeString = (\<lambda>c. Inr c),
      NewService = (\<lambda>c. Inr demo_svc)\<rparr>"

definition demo_inputs :: "string \<Rightarrow> string" where
  "demo_inputs n =
     (if n = filenameInput then ''*''
      else if n = folderIdInput then ''ROOT''
      else if n = credentialsInput then ''c2VjcmV0''
      else [])"

text \<open>The inputs \<open>demo_inputs\<close>, with the input \<open>flag\<close> set to \<open>val\<close>.\<close>

definition flag_inputs :: "string \<Rightarrow> string \<Rightarrow> string \<Rightarrow> string" where
  "flag_inputs flag val n = (if n = flag then val else demo_inputs n)"

definition demo_vars :: vars where
  "demo_vars =
     \<lparr>main_name = ''custom.txt'', main_mimeType = ''text/plain'', main_filenamePrefix = [],
      main_overwriteFlag = False, main_useCompleteSourceFilenameAsNameFlag = False,
      main_mirrorDirectoryStructureFlag = False, main_useSourceFilename = False,
      main_originalFolderId = ''ROOT''\<rparr>"

section \<open>Properties\<close>

subsection \<open>Logging changes neither the calls nor the open files\<close>

lemma log_calls [simp]:
  "calls (Infof m a w) = calls w" "calls (Debugf m a w) = calls w"
  "calls (Warningf m a w) = calls w" "calls (Errorf m a w) = calls w"
  "calls (AddMask p w) = calls w"
  by (simp_all add: Infof_def Debugf_def Warningf_def Errorf_def AddMask_def)

lemma log_open_files [simp]:
  "open_files (Infof m a w) = open_files w" "open_files (Debugf m a w) = open_files w"
  "open_files (Warningf m a w) = open_files w" "open_files (Errorf m a w) = open_files w"
  "open_files (AddMask p w) = open_files w"
  by (simp_all add: Infof_def Debugf_def Warningf_def Errorf_def AddMask_def)

subsection \<open>What the transfer adds to the calls and to the open files\<close>

lemma Files_List_Do_Some:
  "Files_List_Do (Some s) c w =
     ((case list_Do s (calls w) c of Inl e \<Rightarrow> Inl (Err e) | Inr r \<Rightarrow> Inr r),
      w\<lparr>calls := calls w @ [ListReq c]\<rparr>)"
  by (simp add: Files_List_Do_def)

lemma uploadCall_calls:
  "calls (snd (uploadCall svc file folderId driveFile name mimeType w)) =
     calls w @
     (case svc of None \<Rightarrow> []
      | Some s \<Rightarrow>
          (case driveFile of
             None \<Rightarrow> [CreateReq (fileCreate file folderId name mimeType)]
           | Some d \<Rightarrow> [UpdateReq (fileUpdate file folderId d name mimeType)]))"
  by (simp add: uploadCall_def Files_Create_Do_def Files_Update_Do_def
           split: option.splits)

lemma uploadCall_open_files:
  "open_files (snd (uploadCall svc file folderId driveFile name mimeType w)) = open_files w"
  by (simp add: uploadCall_def Files_Create_Do_def Files_Update_Do_def
           split: option.splits)

lemma uploadToDrive_calls:
  "calls (snd (uploadToDrive os svc filename folderId driveFile name mimeType w)) =
     calls w @
     (case Lstat os filename of
        Inl e \<Rightarrow> []
      | Inr fi \<Rightarrow>
          if IsDir fi then []
          else (case Open os filename of
                  Inl e \<Rightarrow> []
                | Inr file \<Rightarrow>
                    (case svc of None \<Rightarrow> []
                     | Some s \<Rightarrow>
                        (case driveFile of
                           None \<Rightarrow> [CreateReq (fileCreate file folderId name mimeType)]
                         | Some d \<Rightarrow> [UpdateReq (fileUpdate file folderId d name mimeType)]))))"
proof -
  have step: "calls (snd (case uploadCall svc f folderId driveFile name mimeType w' of
                 (Inl Panic, w'') \<Rightarrow> (Inl Panic, w'')
               | (Inl (Err err), w'') \<Rightarrow> (Inl (Err (m err)), w'')
               | (Inr x, w'') \<Rightarrow> (Inr (), Debugf ''uploaded/updated file.'' [] w''))) =
             calls (snd (uploadCall svc f folderId driveFile name mimeType w'))"
    for f w' and m :: "string \<Rightarrow> string"
    by (cases "uploadCall svc f folderId driveFile name mimeType w'")
       (auto split: sum.splits failure.splits)
  show ?thesis
    unfolding uploadToDrive_def
    by (simp add: step uploadCall_calls split: sum.splits)
qed

lemma uploadToDrive_open_files:
  "open_files (snd (uploadToDrive os svc filename folderId driveFile name mimeType w)) =
     open_files w @
     (case Lstat os filename of
        Inl e \<Rightarrow> []
      | Inr fi \<Rightarrow>
          if IsDir fi then []
          else (case Open os filename of Inl e \<Rightarrow> [] | Inr file \<Rightarrow> [file]))"
proof -
  have step: "open_files (snd (case uploadCall svc f folderId driveFile name mimeType w' of
                 (Inl Panic, w'') \<Rightarrow> (Inl Panic, w'')
               | (Inl (Err err), w'') \<Rightarrow> (Inl (Err (m err)), w'')
               | (Inr x, w'') \<Rightarrow> (Inr (), Debugf ''uploaded/updated file.'' [] w''))) =
             open_files (snd (uploadCall svc f folderId driveFile name mimeType w'))"
    for f w' and m :: "string \<Rightarrow> string"
    by (cases "uploadCall svc f folderId driveFile name mimeType w'")
       (auto split: sum.splits failure.splits)
  show ?thesis
    unfolding uploadToDrive_def
    by (simp add: step uploadCall_open_files split: sum.splits)
qed

subsection \<open>The loops of uploadFile and createDriveDirectory\<close>

lemma parentLoop_fst: "fst (parentLoop folderId ps w) = (folderId \<in> set ps)"
  by (induction ps) auto

lemma parentLoop_calls: "calls (snd (parentLoop folderId ps w)) = calls w"
  by (induction ps) auto


lemma findLoop_calls: "calls (snd (findLoop name folderId r cur w)) = calls w"
  by (induction r arbitrary: cur w)
     (auto split: prod.splits simp: parentLoop_calls dest: arg_cong [where f = "\<lambda>p. calls (snd p)"])


lemma findLoop_no_name:
  "\<forall>i\<in>set r. file_Name i \<noteq> name \<Longrightarrow> fst (findLoop name folderId r cur w) = cur"
  by (induction r arbitrary: cur w) auto

lemma findLoop_no_parent:
  "\<forall>i\<in>set r. file_Name i = name \<longrightarrow> folderId \<notin> set (file_Parents i) \<Longrightarrow>
   fst (findLoop name folderId r cur w) =
     (if filter (\<lambda>i. file_Name i = name) r = [] then cur
      else Some (last (filter (\<lambda>i. file_Name i = name) r)))"
proof (induction r arbitrary: cur w)
  case Nil
  then show ?case by simp
next
  case (Cons i r)
  show ?case
  proof (cases "name = file_Name i")
    case True
    with Cons.prems have np: "folderId \<notin> set (file_Parents i)" by simp
    obtain found w' where pl: "parentLoop folderId (file_Parents i) w = (found, w')"
      by (cases "parentLoop folderId (file_Parents i) w")
    with parentLoop_fst [of folderId "file_Parents i" w] np have "\<not> found" by simp
    with True pl Cons.IH [of "Some i" w'] Cons.prems show ?thesis by simp
  next
    case False
    with Cons.IH [of cur w] Cons.prems show ?thesis by auto
  qed
qed

lemma findLoop_first_in_folder:
  "fst (findLoop name folderId r cur w) =
     (case find (\<lambda>i. file_Name i = name \<and> folderId \<in> set (file_Parents i)) r of
        Some i \<Rightarrow> Some i
      | None \<Rightarrow>
          if filter (\<lambda>i. file_Name i = name) r = [] then cur
          else Some (last (filter (\<lambda>i. file_Name i = name) r)))"
proof (induction r arbitrary: cur w)
  case Nil
  then show ?case by simp
next
  case (Cons i r)
  show ?case
  proof (cases "name = file_Name i")
    case True
    obtain found w' where pl: "parentLoop folderId (file_Parents i) w = (found, w')"
      by (cases "parentLoop folderId (file_Parents i) w")
    with parentLoop_fst [of folderId "file_Parents i" w]
    have f: "found = (folderId \<in> set (file_Parents i))" by simp
    show ?thesis
      using True pl f Cons.IH [of "Some i" w'] by (auto split: option.splits)
  next
    case False
    with Cons.IH [of cur w] show ?thesis by (auto split: option.splits)
  qed
qed

lemma scanParents_count:
  "fst (scanParents folderId name i ps (n, nid, w)) = n + count_list ps folderId"
  by (induction ps arbitrary: n nid w) auto

lemma scanParents_id:
  "fst (snd (scanParents folderId name i ps (n, nid, w))) =
     (if folderId \<in> set ps then file_Id i else nid)"
  by (induction ps arbitrary: n nid w) auto

lemma scanParents_calls:
  "calls (snd (snd (scanParents folderId name i ps (n, nid, w)))) = calls w"
  by (induction ps arbitrary: n nid w) auto

lemma scanParents_open_files:
  "open_files (snd (snd (scanParents folderId name i ps (n, nid, w)))) = open_files w"
  by (induction ps arbitrary: n nid w) auto

lemma scanFolders_zero:
  "(fst (scanFolders folderId name r (n, nid, w)) = 0) =
     (n = 0 \<and> (\<forall>i\<in>set r. folderId \<notin> set (file_Parents i)))"
proof (induction r arbitrary: n nid w)
  case Nil
  then show ?case by simp
next
  case (Cons i r)
  obtain n' nid' w' where sp:
    "scanParents folderId name i (file_Parents i) (n, nid, w) = (n', nid', w')"
    by (cases "scanParents folderId name i (file_Parents i) (n, nid, w)")
  with scanParents_count [of folderId name i "file_Parents i" n nid w]
  have n': "n' = n + count_list (file_Parents i) folderId" by simp
  have "(n' = 0) = (n = 0 \<and> folderId \<notin> set (file_Parents i))"
    using n' by (auto simp: count_list_0_iff)
  with sp Cons.IH [of n' nid' w'] show ?case by auto
qed

lemma scanFolders_id:
  "fst (snd (scanFolders folderId name r (n, nid, w))) =
     (if filter (\<lambda>i. folderId \<in> set (file_Parents i)) r = [] then nid
      else file_Id (last (filter (\<lambda>i. folderId \<in> set (file_Parents i)) r)))"
proof (induction r arbitrary: n nid w)
  case Nil
  then show ?case by simp
next
  case (Cons i r)
  obtain n' nid' w' where sp:
    "scanParents folderId name i (file_Parents i) (n, nid, w) = (n', nid', w')"
    by (cases "scanParents folderId name i (file_Parents i) (n, nid, w)")
  with scanParents_id [of folderId name i "file_Parents i" n nid w]
  have "nid' = (if folderId \<in> set (file_Parents i) then file_Id i else nid)" by simp
  with sp Cons.IH [of n' nid' w'] show ?case by simp
qed

lemma scanFolders_calls:
  "calls (snd (snd (scanFolders folderId name r (n, nid, w)))) = calls w"
proof (induction r arbitrary: n nid w)
  case Nil
  then show ?case by simp
next
  case (Cons i r)
  obtain n' nid' w' where sp:
    "scanParents folderId name i (file_Parents i) (n, nid, w) = (n', nid', w')"
    by (cases "scanParents folderId name i (file_Parents i) (n, nid, w)")
  with scanParents_calls [of folderId name i "file_Parents i" n nid w]
  have "calls w' = calls w" by simp
  with sp Cons.IH [of n' nid' w'] show ?case by simp
qed

lemma scanFolders_open_files:
  "open_files (snd (snd (scanFolders folderId name r (n, nid, w)))) = open_files w"
proof (induction r arbitrary: n nid w)
  case Nil
  then show ?case by simp
next
  case (Cons i r)
  obtain n' nid' w' where sp:
    "scanParents folderId name i (file_Parents i) (n, nid, w) = (n', nid', w')"
    by (cases "scanParents folderId name i (file_Parents i) (n, nid, w)")
  with scanParents_open_files [of folderId name i "file_Parents i" n nid w]
  have "open_files w' = open_files w" by simp
  with sp Cons.IH [of n' nid' w'] show ?case by simp
qed

subsection \<open>createDriveDirectory, case by case\<close>

lemma createDriveDirectory_None:
  "createDriveDirectory None folderId name w =
     (Inl Panic, Infof ''Checking for existing folder %s'' [Str name] w)"
  by (simp add: createDriveDirectory_def Files_List_Do_def)

lemma createDriveDirectory_list_error:
  assumes "list_Do s (calls w) (folderQuery name) = Inl e"
  shows "fst (createDriveDirectory (Some s) folderId name w) =
           Inl (Err (''unable to retrieve files: '' @ e))"
    and "calls (snd (createDriveDirectory (Some s) folderId name w)) =
           calls w @ [ListReq (folderQuery name)]"
    and "open_files (snd (createDriveDirectory (Some s) folderId name w)) = open_files w"
  using assms by (simp_all add: createDriveDirectory_def Files_List_Do_def)

lemma createDriveDirectory_found:
  assumes l: "list_Do s (calls w) (folderQuery name) = Inr r"
    and m: "filter (\<lambda>i. folderId \<in> set (file_Parents i)) r \<noteq> []"
  shows "fst (createDriveDirectory (Some s) folderId name w) =
           Inr (file_Id (last (filter (\<lambda>i. folderId \<in> set (file_Parents i)) r)))"
    and "calls (snd (createDriveDirectory (Some s) folderId name w)) =
           calls w @ [ListReq (folderQuery name)]"
    and "open_files (snd (createDriveDirectory (Some s) folderId name w)) = open_files w"
proof -
  let ?w1 = "(Infof ''Checking for existing folder %s'' [Str name] w)
               \<lparr>calls := calls w @ [ListReq (folderQuery name)]\<rparr>"
  obtain n nid w2 where sf: "scanFolders folderId name r (0, [], ?w1) = (n, nid, w2)"
    by (cases "scanFolders folderId name r (0, [], ?w1)")
  from m have "\<not> (\<forall>i\<in>set r. folderId \<notin> set (file_Parents i))"
    by (auto simp: filter_empty_conv)
  with scanFolders_zero [of folderId name r 0 "[]" ?w1] sf have n: "n \<noteq> 0" by simp
  from scanFolders_id [of folderId name r 0 "[]" ?w1] sf m
  have nid: "nid = file_Id (last (filter (\<lambda>i. folderId \<in> set (file_Parents i)) r))" by simp
  from scanFolders_calls [of folderId name r 0 "[]" ?w1] sf
  have c: "calls w2 = calls w @ [ListReq (folderQuery name)]" by simp
  from scanFolders_open_files [of folderId name r 0 "[]" ?w1] sf
  have o: "open_files w2 = open_files w" by simp
  have eq: "createDriveDirectory (Some s) folderId name w = (Inr nid, w2)"
    using l sf n by (simp add: createDriveDirectory_def Files_List_Do_def)
  show "fst (createDriveDirectory (Some s) folderId name w) =
           Inr (file_Id (last (filter (\<lambda>i. folderId \<in> set (file_Parents i)) r)))"
    using eq nid by simp
  show "calls (snd (createDriveDirectory (Some s) folderId name w)) =
           calls w @ [ListReq (folderQuery name)]"
    using eq c by simp
  show "open_files (snd (createDriveDirectory (Some s) folderId name w)) = open_files w"
    using eq o by simp
qed

lemma createDriveDirectory_not_found:
  assumes l: "list_Do s (calls w) (folderQuery name) = Inr r"
    and m: "filter (\<lambda>i. folderId \<in> set (file_Parents i)) r = []"
  shows "fst (createDriveDirectory (Some s) folderId name w) =
           (case create_Do s (calls w @ [ListReq (folderQuery name)])
                   (folderCreate folderId name) of
              Inl e \<Rightarrow> Inl (Err (''creating folder failed with error: '' @ e))
            | Inr d \<Rightarrow> Inr (file_Id d))"
    and "calls (snd (createDriveDirectory (Some s) folderId name w)) =
           calls w @ [ListReq (folderQuery name), CreateReq (folderCreate folderId name)]"
    and "open_files (snd (createDriveDirectory (Some s) folderId name w)) = open_files w"
proof -
  let ?w1 = "(Infof ''Checking for existing folder %s'' [Str name] w)
               \<lparr>calls := calls w @ [ListReq (folderQuery name)]\<rparr>"
  obtain n nid w2 where sf: "scanFolders folderId name r (0, [], ?w1) = (n, nid, w2)"
    by (cases "scanFolders folderId name r (0, [], ?w1)")
  from m have "\<forall>i\<in>set r. folderId \<notin> set (file_Parents i)"
    by (auto simp: filter_empty_conv)
  with scanFolders_zero [of folderId name r 0 "[]" ?w1] sf have n: "n = 0" by simp
  from scanFolders_calls [of folderId name r 0 "[]" ?w1] sf
  have c: "calls w2 = calls w @ [ListReq (folderQuery name)]" by simp
  from scanFolders_open_files [of folderId name r 0 "[]" ?w1] sf
  have o: "open_files w2 = open_files w" by simp
  have eq: "createDriveDirectory (Some s) folderId name w =
      (case Files_Create_Do (Some s) (folderCreate folderId name)
              (Infof ''Creating folder: %s'' [Str name] w2) of
         (Inl Panic, w3) \<Rightarrow> (Inl Panic, w3)
       | (Inl (Err err), w3) \<Rightarrow>
           (Inl (Err (''creating folder failed with error: '' @ err)), w3)
       | (Inr d, w3) \<Rightarrow> (Inr (file_Id d), w3))"
    using l sf n by (simp add: createDriveDirectory_def Files_List_Do_def)
  show "fst (createDriveDirectory (Some s) folderId name w) =
           (case create_Do s (calls w @ [ListReq (folderQuery name)])
                   (folderCreate folderId name) of
              Inl e \<Rightarrow> Inl (Err (''creating folder failed with error: '' @ e))
            | Inr d \<Rightarrow> Inr (file_Id d))"
    unfolding eq using c by (simp add: Files_Create_Do_def split: sum.splits)
  show "calls (snd (createDriveDirectory (Some s) folderId name w)) =
           calls w @ [ListReq (folderQuery name), CreateReq (folderCreate folderId name)]"
    unfolding eq using c by (simp add: Files_Create_Do_def split: sum.splits)
  show "open_files (snd (createDriveDirectory (Some s) folderId name w)) = open_files w"
    unfolding eq using o by (simp add: Files_Create_Do_def split: sum.splits)
qed

subsection \<open>uploadFile with the overwrite flag\<close>

lemma uploadFile_overwrite_calls:
  assumes l: "list_Do s (calls w) (fileQuery name) = Inr r"
  shows "calls (snd (uploadFile os (Some s) filename folderId name mimeType True w)) =
     calls w @ ListReq (fileQuery name) #
     (case Lstat os filename of
        Inl e \<Rightarrow> []
      | Inr fi \<Rightarrow>
          if IsDir fi then []
          else (case Open os filename of
                  Inl e \<Rightarrow> []
                | Inr f \<Rightarrow>
                    (case find (\<lambda>i. file_Name i = name \<and> folderId \<in> set (file_Parents i)) r of
                       Some i \<Rightarrow> [UpdateReq (fileUpdate f folderId i name mimeType)]
                     | None \<Rightarrow>
                         if filter (\<lambda>i. file_Name i = name) r = []
                         then [CreateReq (fileCreate f folderId name mimeType)]
                         else [UpdateReq (fileUpdate f folderId
                                 (last (filter (\<lambda>i. file_Name i = name) r)) name mimeType)])))"
proof -
  let ?w1 = "Infof ''Files: %d'' [Num (length r)]
               ((Infof ''target file name: %s'' [Str name] w)
                  \<lparr>calls := calls w @ [ListReq (fileQuery name)]\<rparr>)"
  obtain cur w2 where fl: "findLoop name folderId r None ?w1 = (cur, w2)"
    by (cases "findLoop name folderId r None ?w1")
  from findLoop_calls [of name folderId r None ?w1] fl
  have c: "calls w2 = calls w @ [ListReq (fileQuery name)]" by simp
  from findLoop_first_in_folder [of name folderId r None ?w1] fl
  have cur: "cur =
     (case find (\<lambda>i. file_Name i = name \<and> folderId \<in> set (file_Parents i)) r of
        Some i \<Rightarrow> Some i
      | None \<Rightarrow>
          if filter (\<lambda>i. file_Name i = name) r = [] then None
          else Some (last (filter (\<lambda>i. file_Name i = name) r)))" by simp
  have eq: "uploadFile os (Some s) filename folderId name mimeType True w =
     (case cur of
        None \<Rightarrow>
          uploadToDrive os (Some s) filename folderId None name mimeType
            (Infof ''No similar files found. Creating a new file'' [] w2)
      | Some currentFile \<Rightarrow>
          uploadToDrive os (Some s) filename folderId (Some currentFile) name mimeType
            (Infof ''Overwriting file: %s (%s)''
               [Str (file_Name currentFile), Str (file_Id currentFile)] w2))"
    using l fl by (simp add: uploadFile_def Files_List_Do_def)
  show ?thesis
    unfolding eq cur
    by (simp add: uploadToDrive_calls c split: option.splits sum.splits)
qed


subsection \<open>C1: overwrite enabled, no listed object in the target folder\<close>

text \<open>
  C1 (as claimed): with the overwrite flag true, if no object returned by the name search
  has the target folder among its parents, \<open>uploadFile\<close> creates a new object in the
  target folder and updates no name match attached to other parents. The code does not:
  \<open>findLoop\<close> remembers every name match in \<^verbatim>\<open>currentFile\<close> before it looks at the
  parents, and the match remembered last is updated. Below, the search returns one object
  named \<^verbatim>\<open>report.txt\<close> whose only parent is \<^verbatim>\<open>other\<close>; the target folder is \<^verbatim>\<open>F\<close>; the
  calls issued are the search and an update of that object, and no create.
\<close>

theorem uploadFile_updates_name_match_elsewhere:
  "list_Do demo_svc [] (fileQuery ''report.txt'') =
     Inr [\<lparr>file_Id = ''X'', file_Name = ''report.txt'', file_MimeType = ''text/plain'',
            file_Parents = [''other'']\<rparr>] \<and>
   Lstat (demo_os demo_inputs []) ''report.txt'' = Inr (FileInfo False) \<and>
   calls (snd (uploadFile (demo_os demo_inputs []) (Some demo_svc) ''report.txt'' ''F''
                 ''report.txt'' ''text/plain'' True demo_world)) =
     [ListReq (fileQuery ''report.txt''),
      UpdateReq \<lparr>update_fileId = ''X'',
                 update_file = \<lparr>file_Id = [], file_Name = ''report.txt'',
                                file_MimeType = ''text/plain'', file_Parents = []\<rparr>,
                 update_AddParents = ''F'', update_RemoveParents = [],
                 update_Media = Some (OsFile ''report.txt''),
                 update_SupportsAllDrives = True\<rparr>]"
  by (simp add: demo_os_def demo_svc_def listing_svc_def demo_listing_def demo_world_def
        uploadFile_def Files_List_Do_def uploadToDrive_def uploadCall_def Files_Update_Do_def
        fileUpdate_def Infof_def Debugf_def)

text \<open>
  C1 (amended): with the overwrite flag true, a search that succeeded and a regular file
  that can be opened, if no object returned by the search has the target folder among its
  parents, then \<open>uploadFile\<close> creates a new object in the target folder when no returned
  object has the target name, and otherwise updates the last returned object that has the
  target name, asking for the target folder to be added to its parents.
\<close>

theorem uploadFile_overwrite_no_parent_match:
  assumes "list_Do s (calls w) (fileQuery name) = Inr r"
    and "\<forall>i\<in>set r. folderId \<notin> set (file_Parents i)"
    and "Lstat os filename = Inr fi" and "\<not> IsDir fi" and "Open os filename = Inr f"
  shows "calls (snd (uploadFile os (Some s) filename folderId name mimeType True w)) =
     calls w @
     [ListReq (fileQuery name),
      if \<forall>i\<in>set r. file_Name i \<noteq> name
      then CreateReq (fileCreate f folderId name mimeType)
      else UpdateReq (fileUpdate f folderId (last (filter (\<lambda>i. file_Name i = name) r))
                        name mimeType)]"
proof -
  from assms(2)
  have "find (\<lambda>i. file_Name i = name \<and> folderId \<in> set (file_Parents i)) r = None"
    by (simp add: find_None_iff)
  moreover have "(filter (\<lambda>i. file_Name i = name) r = []) = (\<forall>i\<in>set r. file_Name i \<noteq> name)"
    by (simp add: filter_empty_conv)
  ultimately show ?thesis
    using uploadFile_overwrite_calls [OF assms(1), of os filename folderId mimeType] assms(3-5)
    by simp
qed

theorem uploadFile_overwrite_no_parent_match_witness:
  "list_Do demo_svc (calls demo_world) (fileQuery ''report.txt'') = Inr demo_listing \<and>
   map file_Parents demo_listing = [[''other'']] \<and>
   Lstat (demo_os demo_inputs []) ''report.txt'' = Inr (FileInfo False) \<and>
   \<not> IsDir (FileInfo False) \<and>
   Open (demo_os demo_inputs []) ''report.txt'' = Inr (OsFile ''report.txt'') \<and>
   calls (snd (uploadFile (demo_os demo_inputs []) (Some demo_svc) ''report.txt'' ''F''
                 ''report.txt'' ''text/plain'' True demo_world)) =
     [ListReq (fileQuery ''report.txt''),
      UpdateReq (fileUpdate (OsFile ''report.txt'') ''F'' (last demo_listing)
                   ''report.txt'' ''text/plain'')] \<and>
   calls (snd (uploadFile (demo_os demo_inputs []) (Some demo_svc) ''report.txt'' ''F''
                 ''notes.txt'' ''text/plain'' True demo_world)) =
     [ListReq (fileQuery ''notes.txt''),
      CreateReq (fileCreate (OsFile ''report.txt'') ''F'' ''notes.txt'' ''text/plain'')]"
proof -
  have l: "list_Do demo_svc (calls demo_world) (fileQuery n) = Inr demo_listing" for n
    by (simp add: demo_svc_def listing_svc_def)
  have p: "\<forall>i\<in>set demo_listing. ''F'' \<notin> set (file_Parents i)"
    by (simp add: demo_listing_def)
  have a: "Lstat (demo_os demo_inputs []) ''report.txt'' = Inr (FileInfo False)"
    and b: "\<not> IsDir (FileInfo False)"
    and c: "Open (demo_os demo_inputs []) ''report.txt'' = Inr (OsFile ''report.txt'')"
    by (simp_all add: demo_os_def)
  show ?thesis
    using l p a b c
      uploadFile_overwrite_no_parent_match [OF l p a b c, of "''report.txt''" "''text/plain''"]
      uploadFile_overwrite_no_parent_match [OF l p a b c, of "''notes.txt''" "''text/plain''"]
    by (simp add: demo_listing_def demo_world_def)
qed

subsection \<open>C2: the directory resolver\<close>

text \<open>
  C2 (as claimed): when the listing holds one or more folders whose parents contain the
  parent identifier, \<open>createDriveDirectory\<close> returns the first such match's identifier.
  The code does not: the loops never stop at a match, every match overwrites
  \<^verbatim>\<open>nextFolderId\<close>, so the last one is returned. Below, the listing holds the folders
  \<^verbatim>\<open>A\<close> and \<^verbatim>\<open>B\<close>, both under \<^verbatim>\<open>P\<close>, and the resolver returns \<^verbatim>\<open>B\<close>.
\<close>

theorem createDriveDirectory_returns_last_duplicate:
  "list_Do (listing_svc dup_listing) [] (folderQuery ''docs'') =
     Inr [\<lparr>file_Id = ''A'', file_Name = ''docs'', file_MimeType = folderMimeType,
            file_Parents = [''P'']\<rparr>,
          \<lparr>file_Id = ''B'', file_Name = ''docs'', file_MimeType = folderMimeType,
            file_Parents = [''P'']\<rparr>] \<and>
   fst (createDriveDirectory (Some (listing_svc dup_listing)) ''P'' ''docs'' demo_world) =
     Inr ''B''"
  by (simp add: listing_svc_def dup_listing_def demo_world_def createDriveDirectory_def
        Files_List_Do_def Infof_def)

text \<open>
  C2 (amended): when the search of \<open>createDriveDirectory\<close> succeeds, then if the listing
  holds one or more objects whose parents contain the parent identifier, the resolver
  returns the identifier of the last of them and issues no create; if it holds none, the
  resolver issues exactly one create, of a folder with the segment's name and the parent
  identifier as its only parent, and returns the identifier of the folder that the create
  answers (the error of the create, if it fails).
\<close>

theorem createDriveDirectory_last_match_or_create:
  assumes "list_Do s (calls w) (folderQuery name) = Inr r"
  shows "fst (createDriveDirectory (Some s) folderId name w) =
           (if filter (\<lambda>i. folderId \<in> set (file_Parents i)) r \<noteq> []
            then Inr (file_Id (last (filter (\<lambda>i. folderId \<in> set (file_Parents i)) r)))
            else (case create_Do s (calls w @ [ListReq (folderQuery name)])
                         \<lparr>create_file = \<lparr>file_Id = [], file_Name = name,
                                         file_MimeType = folderMimeType,
                                         file_Parents = [folderId]\<rparr>,
                          create_Fields = ''id'', create_Media = None,
                          create_SupportsAllDrives = True\<rparr> of
                    Inl e \<Rightarrow> Inl (Err (''creating folder failed with error: '' @ e))
                  | Inr d \<Rightarrow> Inr (file_Id d))) \<and>
         calls (snd (createDriveDirectory (Some s) folderId name w)) =
           calls w @ ListReq (folderQuery name) #
           (if filter (\<lambda>i. folderId \<in> set (file_Parents i)) r \<noteq> [] then []
            else [CreateReq \<lparr>create_file = \<lparr>file_Id = [], file_Name = name,
                                            file_MimeType = folderMimeType,
                                            file_Parents = [folderId]\<rparr>,
                             create_Fields = ''id'', create_Media = None,
                             create_SupportsAllDrives = True\<rparr>])"
proof (cases "filter (\<lambda>i. folderId \<in> set (file_Parents i)) r = []")
  case True
  from createDriveDirectory_not_found(1,2) [OF assms True] True
  show ?thesis by (simp add: folderCreate_def)
next
  case False
  from createDriveDirectory_found(1,2) [OF assms False] False
  show ?thesis by simp
qed

theorem createDriveDirectory_last_match_or_create_witness:
  "list_Do (listing_svc dup_listing) (calls demo_world) (folderQuery ''docs'') = Inr dup_listing \<and>
   fst (createDriveDirectory (Some (listing_svc dup_listing)) ''P'' ''docs'' demo_world) =
     Inr ''B'' \<and>
   calls (snd (createDriveDirectory (Some (listing_svc dup_listing)) ''P'' ''docs'' demo_world)) =
     [ListReq (folderQuery ''docs'')] \<and>
   fst (createDriveDirectory (Some (listing_svc dup_listing)) ''Q'' ''docs'' demo_world) =
     Inr ''new'' \<and>
   calls (snd (createDriveDirectory (Some (listing_svc dup_listing)) ''Q'' ''docs'' demo_world)) =
     [ListReq (folderQuery ''docs''), CreateReq (folderCreate ''Q'' ''docs'')]"
proof -
  have l: "list_Do (listing_svc dup_listing) (calls demo_world) (folderQuery ''docs'') =
             Inr dup_listing"
    by (simp add: listing_svc_def)
  show ?thesis
    using l createDriveDirectory_last_match_or_create [OF l, of "''P''"]
      createDriveDirectory_last_match_or_create [OF l, of "''Q''"]
    by (simp add: dup_listing_def demo_world_def listing_svc_def folderCreate_def)
qed

subsection \<open>C5: overwrite disabled\<close>

text \<open>
  C5: with the overwrite flag false, \<open>uploadFile\<close> issues no search and no update. Either
  it issues no remote call at all (the path cannot be examined or opened, is a directory,
  or the service is nil), or its only call is the create of an object with the target
  name, the mime type and the target folder as parent; for a regular file that can be
  opened and a service that is not nil it is that create, whatever the remote holds.
\<close>

theorem uploadFile_overwrite_disabled_creates:
  "(calls (snd (uploadFile os svc filename folderId name mimeType False w)) = calls w \<or>
    (\<exists>f. calls (snd (uploadFile os svc filename folderId name mimeType False w)) =
            calls w @
            [CreateReq \<lparr>create_file = \<lparr>file_Id = [], file_Name = name,
                                        file_MimeType = mimeType,
                                        file_Parents = [folderId]\<rparr>,
                         create_Fields = [], create_Media = Some f,
                         create_SupportsAllDrives = True\<rparr>])) \<and>
   (Lstat os filename = Inr fi \<and> \<not> IsDir fi \<and> Open os filename = Inr f0 \<longrightarrow>
      calls (snd (uploadFile os (Some s) filename folderId name mimeType False w)) =
        calls w @
        [CreateReq \<lparr>create_file = \<lparr>file_Id = [], file_Name = name,
                                    file_MimeType = mimeType,
                                    file_Parents = [folderId]\<rparr>,
                     create_Fields = [], create_Media = Some f0,
                     create_SupportsAllDrives = True\<rparr>])"
  by (auto simp: uploadFile_def uploadToDrive_calls fileCreate_def
           split: sum.splits option.splits)

theorem uploadFile_overwrite_disabled_creates_witness:
  "Lstat (demo_os demo_inputs []) ''report.txt'' = Inr (FileInfo False) \<and>
   \<not> IsDir (FileInfo False) \<and>
   Open (demo_os demo_inputs []) ''report.txt'' = Inr (OsFile ''report.txt'') \<and>
   calls (snd (uploadFile (demo_os demo_inputs []) (Some demo_svc) ''report.txt'' ''F''
                 ''report.txt'' ''text/plain'' False demo_world)) =
     [CreateReq (fileCreate (OsFile ''report.txt'') ''F'' ''report.txt'' ''text/plain'')]"
  using uploadFile_overwrite_disabled_creates
          [of "demo_os demo_inputs []" "Some demo_svc" "''report.txt''" "''F''" "''report.txt''"
              "''text/plain''" demo_world "FileInfo False" "OsFile ''report.txt''" demo_svc]
  by (simp add: demo_os_def demo_world_def fileCreate_def)

subsection \<open>C6: the update of a located object\<close>

text \<open>
  C6: when \<open>uploadToDrive\<close> is given a located object and a regular file that can be
  opened, its one remote call is an update of that object's identifier that carries the
  local file as the new content and the target name and mime type as the new metadata,
  asks for the target folder to be added to the parents, and neither names parents to be
  removed nor writes the parents field. The property is stated on the request: what the
  remote store makes of it is not part of the program.
\<close>

theorem uploadToDrive_update_request:
  assumes "Lstat os filename = Inr fi" and "\<not> IsDir fi" and "Open os filename = Inr f"
  shows "calls (snd (uploadToDrive os (Some s) filename folderId (Some d) name mimeType w)) =
     calls w @
     [UpdateReq \<lparr>update_fileId = file_Id d,
                  update_file = \<lparr>file_Id = [], file_Name = name, file_MimeType = mimeType,
                                 file_Parents = []\<rparr>,
                  update_AddParents = folderId, update_RemoveParents = [],
                  update_Media = Some f, update_SupportsAllDrives = True\<rparr>]"
  using assms by (simp add: uploadToDrive_calls fileUpdate_def)

theorem uploadToDrive_update_request_witness:
  "Lstat (demo_os demo_inputs []) ''report.txt'' = Inr (FileInfo False) \<and>
   \<not> IsDir (FileInfo False) \<and>
   Open (demo_os demo_inputs []) ''report.txt'' = Inr (OsFile ''report.txt'') \<and>
   calls (snd (uploadToDrive (demo_os demo_inputs []) (Some demo_svc) ''report.txt'' ''F''
                 (Some \<lparr>file_Id = ''X'', file_Name = ''old.txt'', file_MimeType = ''text/csv'',
                        file_Parents = [''other'']\<rparr>)
                 ''report.txt'' ''text/plain'' demo_world)) =
     [UpdateReq \<lparr>update_fileId = ''X'',
                  update_file = \<lparr>file_Id = [], file_Name = ''report.txt'',
                                 file_MimeType = ''text/plain'', file_Parents = []\<rparr>,
                  update_AddParents = ''F'', update_RemoveParents = [],
                  update_Media = Some (OsFile ''report.txt''),
                  update_SupportsAllDrives = True\<rparr>]"
proof -
  have a: "Lstat (demo_os demo_inputs []) ''report.txt'' = Inr (FileInfo False)"
    and b: "\<not> IsDir (FileInfo False)"
    and c: "Open (demo_os demo_inputs []) ''report.txt'' = Inr (OsFile ''report.txt'')"
    by (simp_all add: demo_os_def)
  show ?thesis
    using a b c uploadToDrive_update_request [OF a b c, of demo_svc "''F''" _ "''report.txt''"
                   "''text/plain''" demo_world]
    by (simp add: demo_world_def)
qed

subsection \<open>C9: the local file handle\<close>

text \<open>
  C9 (as claimed): the handle opened before the transfer is closed when the transfer
  returns, on every path. The code does not: main.go contains no call of
  \<^verbatim>\<open>Close\<close>. Below, a successful transfer returns with the handle still open.
\<close>

theorem uploadToDrive_leaves_file_open:
  "Open (demo_os demo_inputs []) ''report.txt'' = Inr (OsFile ''report.txt'') \<and>
   fst (uploadToDrive (demo_os demo_inputs []) (Some demo_svc) ''report.txt'' ''F'' None
          ''report.txt'' ''text/plain'' demo_world) = Inr () \<and>
   open_files (snd (uploadToDrive (demo_os demo_inputs []) (Some demo_svc) ''report.txt'' ''F''
                      None ''report.txt'' ''text/plain'' demo_world)) =
     [OsFile ''report.txt'']"
  by (simp add: demo_os_def demo_svc_def listing_svc_def demo_world_def uploadToDrive_def
        uploadCall_def Files_Create_Do_def Debugf_def)

text \<open>
  C9 (amended): for a regular file that can be opened, the handle that \<open>uploadToDrive\<close>
  opens is still open when \<open>uploadToDrive\<close> returns, whether the service is nil, the
  remote call fails or it succeeds; no handle opened earlier is closed either.
\<close>

theorem uploadToDrive_never_closes:
  assumes "Lstat os filename = Inr fi" and "\<not> IsDir fi" and "Open os filename = Inr f"
  shows "open_files (snd (uploadToDrive os svc filename folderId driveFile name mimeType w)) =
           open_files w @ [f]"
  using assms by (simp add: uploadToDrive_open_files)

theorem uploadToDrive_never_closes_witness:
  "Lstat (demo_os demo_inputs []) ''report.txt'' = Inr (FileInfo False) \<and>
   \<not> IsDir (FileInfo False) \<and>
   Open (demo_os demo_inputs []) ''report.txt'' = Inr (OsFile ''report.txt'') \<and>
   fst (uploadToDrive (demo_os demo_inputs []) (Some failing_svc) ''report.txt'' ''F'' None
          ''report.txt'' ''text/plain'' demo_world) =
     Inl (Err ''uploading file with filename: report.txt failed with error: backend error'') \<and>
   open_files (snd (uploadToDrive (demo_os demo_inputs []) (Some failing_svc) ''report.txt''
                      ''F'' None ''report.txt'' ''text/plain'' demo_world)) =
     [OsFile ''report.txt'']"
proof -
  have a: "Lstat (demo_os demo_inputs []) ''report.txt'' = Inr (FileInfo False)"
    and b: "\<not> IsDir (FileInfo False)"
    and c: "Open (demo_os demo_inputs []) ''report.txt'' = Inr (OsFile ''report.txt'')"
    by (simp_all add: demo_os_def)
  have d: "fst (uploadToDrive (demo_os demo_inputs []) (Some failing_svc) ''report.txt'' ''F''
                  None ''report.txt'' ''text/plain'' demo_world) =
     Inl (Err ''uploading file with filename: report.txt failed with error: backend error'')"
    by (simp add: demo_os_def failing_svc_def demo_world_def uploadToDrive_def
          uploadCall_def Files_Create_Do_def)
  show ?thesis
    using a b c d uploadToDrive_never_closes [OF a b c, of "Some failing_svc" "''F''" None
                     "''report.txt''" "''text/plain''" demo_world]
    by (simp add: demo_world_def)
qed

subsection \<open>Paths and target names\<close>

lemma Split_not_Nil: "Split s c \<noteq> []"
  by (subst Split.simps) (simp split: list.splits)

lemma Base_not_Nil: "Base path \<noteq> []"
  by (simp add: Base_def Let_def)




lemma targetName_Nil_iff:
  "(targetName v file = []) = (main_useCompleteSourceFilenameAsNameFlag v \<and> file = [])"
  by (auto simp: targetName_def Base_not_Nil)

subsection \<open>What directory mirroring adds to the calls\<close>

lemma isUpload_simps [simp]:
  "isUpload (ListReq c) = False"
  "isUpload (CreateReq c') = (create_Media c' \<noteq> None)"
  "isUpload (UpdateReq c'') = True"
  by (simp_all add: isUpload_def)

lemma createDriveDirectory_Some_cases:
  obtains (list_error) e where "list_Do s (calls w) (folderQuery name) = Inl e"
  | (found) r where "list_Do s (calls w) (folderQuery name) = Inr r"
      and "filter (\<lambda>i. folderId \<in> set (file_Parents i)) r \<noteq> []"
  | (not_found) r where "list_Do s (calls w) (folderQuery name) = Inr r"
      and "filter (\<lambda>i. folderId \<in> set (file_Parents i)) r = []"
  by (cases "list_Do s (calls w) (folderQuery name)") auto

lemma createDriveDirectory_effects:
  "open_files (snd (createDriveDirectory svc folderId name w)) = open_files w"
  "filter isUpload (calls (snd (createDriveDirectory svc folderId name w))) =
     filter isUpload (calls w)"
proof -
  have "open_files (snd (createDriveDirectory svc folderId name w)) = open_files w \<and>
        filter isUpload (calls (snd (createDriveDirectory svc folderId name w))) =
          filter isUpload (calls w)"
  proof (cases svc)
    case None
    then show ?thesis by (simp add: createDriveDirectory_None)
  next
    case (Some s)
    show ?thesis
    proof (cases rule: createDriveDirectory_Some_cases [where s = s and w = w and name = name and folderId = folderId])
      case (list_error e)
      from createDriveDirectory_list_error(2,3) [OF this, where folderId = folderId] Some
      show ?thesis by simp
    next
      case (found r)
      from createDriveDirectory_found(2,3) [OF this] Some
      show ?thesis by simp
    next
      case (not_found r)
      from createDriveDirectory_not_found(2,3) [OF this] Some
      show ?thesis by (simp add: folderCreate_def)
    qed
  qed
  then show "open_files (snd (createDriveDirectory svc folderId name w)) = open_files w"
    and "filter isUpload (calls (snd (createDriveDirectory svc folderId name w))) =
           filter isUpload (calls w)"
    by simp_all
qed

lemma createDriveDirectory_Some_no_panic:
  "fst (createDriveDirectory (Some s) folderId name w) \<noteq> Inl Panic"
proof (cases rule: createDriveDirectory_Some_cases [where s = s and w = w and name = name and folderId = folderId])
  case (list_error e)
  from createDriveDirectory_list_error(1) [OF this, where folderId = folderId] show ?thesis by simp
next
  case (found r)
  from createDriveDirectory_found(1) [OF this] show ?thesis by simp
next
  case (not_found r)
  from createDriveDirectory_not_found(1) [OF this] show ?thesis
    by (simp split: sum.splits)
qed

lemma createDriveDirectory_success_calls:
  assumes "createDriveDirectory (Some s) folderId name w = (Inr t, w')"
  shows "\<exists>added. calls w' = calls w @ added \<and> listQueries added = [list_Q (folderQuery name)]"
proof (cases rule: createDriveDirectory_Some_cases [where s = s and w = w and name = name and folderId = folderId])
  case (list_error e)
  from createDriveDirectory_list_error(1) [OF this, where folderId = folderId] assms show ?thesis by simp
next
  case (found r)
  from createDriveDirectory_found(2) [OF this] assms show ?thesis by simp
next
  case (not_found r)
  from createDriveDirectory_not_found(2) [OF this] assms show ?thesis by simp
qed

lemma mirrorLoop_effects:
  "open_files (snd (mirrorLoop svc folderId dirs w)) = open_files w \<and>
   filter isUpload (calls (snd (mirrorLoop svc folderId dirs w))) = filter isUpload (calls w)"
proof (induction dirs arbitrary: folderId w)
  case Nil
  then show ?case by simp
next
  case (Cons dir rest)
  obtain r w' where c: "createDriveDirectory svc folderId dir w = (r, w')"
    by (cases "createDriveDirectory svc folderId dir w")
  from createDriveDirectory_effects [of svc folderId dir w] c
  have e: "open_files w' = open_files w" "filter isUpload (calls w') = filter isUpload (calls w)"
    by simp_all
  show ?case
  proof (cases r)
    case (Inl f)
    with c e show ?thesis by (cases f) simp_all
  next
    case (Inr t)
    with c e Cons.IH [of t w'] show ?thesis by simp
  qed
qed

lemma mirrorLoop_Some_exit:
  "fst (mirrorLoop (Some s) folderId dirs w) = Inl ex \<Longrightarrow> ex = Exit1"
proof (induction dirs arbitrary: folderId w)
  case Nil
  then show ?case by simp
next
  case (Cons dir rest)
  obtain r w' where c: "createDriveDirectory (Some s) folderId dir w = (r, w')"
    by (cases "createDriveDirectory (Some s) folderId dir w")
  with createDriveDirectory_Some_no_panic [of s folderId dir w] have np: "r \<noteq> Inl Panic"
    by simp
  show ?case
  proof (cases r)
    case (Inl f)
    with np obtain e where "f = Err e" by (cases f) auto
    with Inl c Cons.prems show ?thesis by simp
  next
    case (Inr t)
    with c Cons.prems Cons.IH [of t w'] show ?thesis by simp
  qed
qed

lemma mirrorLoop_None:
  "dirs \<noteq> [] \<Longrightarrow> fst (mirrorLoop None folderId dirs w) = Inl Crash"
  by (cases dirs) (simp_all add: createDriveDirectory_None)

lemma spec_resolveStep_Inl [simp]: "spec_resolveStep svc (Inl ex, w) d = (Inl ex, w)"
  by (simp add: spec_resolveStep_def)

lemma spec_resolveStep_Inr:
  "spec_resolveStep svc (Inr parent, w) d =
     (case createDriveDirectory svc parent d w of
        (Inl Panic, w') \<Rightarrow> (Inl Crash, w')
      | (Inl (Err err), w') \<Rightarrow>
          (Inl Exit1,
           Errorf ''creating directory %s failed with error: %s'' [Str d, Str err] w')
      | (Inr folderId', w') \<Rightarrow> (Inr folderId', w'))"
  by (simp add: spec_resolveStep_def)

lemma spec_resolveStep_stuck [simp]:
  "foldl (spec_resolveStep svc) (Inl ex, w) ds = (Inl ex, w)"
  by (induction ds) simp_all

lemma mirrorLoop_spec: "mirrorLoop svc root segments w = spec_resolveChain svc root segments w"
proof -
  have "mirrorLoop svc root segments w = foldl (spec_resolveStep svc) (Inr root, w) segments"
  proof (induction segments arbitrary: root w)
    case Nil
    then show ?case by simp
  next
    case (Cons d ds)
    obtain r w' where c: "createDriveDirectory svc root d w = (r, w')"
      by (cases "createDriveDirectory svc root d w")
    show ?case
    proof (cases r)
      case (Inl f)
      with c show ?thesis by (cases f) (simp_all add: spec_resolveStep_Inr)
    next
      case (Inr t)
      with c Cons.IH [of t w'] show ?thesis by (simp add: spec_resolveStep_Inr)
    qed
  qed
  then show ?thesis by (simp add: spec_resolveChain_def)
qed

lemma listQueries_append: "listQueries (xs @ ys) = listQueries xs @ listQueries ys"
  by (induction xs rule: listQueries.induct) simp_all

lemma mirrorLoop_success_calls:
  "mirrorLoop (Some s) folderId dirs w = (Inr t, w') \<Longrightarrow>
   \<exists>added. calls w' = calls w @ added \<and>
           listQueries added = map (\<lambda>d. list_Q (folderQuery d)) dirs"
proof (induction dirs arbitrary: folderId w)
  case Nil
  then show ?case by simp
next
  case (Cons dir rest)
  obtain r w1 where c: "createDriveDirectory (Some s) folderId dir w = (r, w1)"
    by (cases "createDriveDirectory (Some s) folderId dir w")
  show ?case
  proof (cases r)
    case (Inl f)
    with c Cons.prems show ?thesis by (cases f) simp_all
  next
    case (Inr t1)
    with c Cons.prems have m: "mirrorLoop (Some s) t1 rest w1 = (Inr t, w')" by simp
    from createDriveDirectory_success_calls [of s folderId dir w t1 w1] c Inr
    obtain a1 where a1: "calls w1 = calls w @ a1" "listQueries a1 = [list_Q (folderQuery dir)]"
      by auto
    from Cons.IH [OF m]
    obtain a2 where a2: "calls w' = calls w1 @ a2"
      "listQueries a2 = map (\<lambda>d. list_Q (folderQuery d)) rest"
      by auto
    from a1 a2 have "calls w' = calls w @ (a1 @ a2) \<and>
       listQueries (a1 @ a2) = map (\<lambda>d. list_Q (folderQuery d)) (dir # rest)"
      by (simp add: listQueries_append)
    then show ?thesis by blast
  qed
qed

lemma drop_calls: "calls w1 = calls w0 @ added \<Longrightarrow> drop (length (calls w0)) (calls w1) = added"
  by simp


subsection \<open>The body of the loop over the files\<close>

lemma loopBody_unfold:
  "loopBody os svc v folderId file w =
     (case mirrorDirectories svc v (main_originalFolderId v) file
             (Infof ''Processing file %s'' [Str file] w) of
        (Inl ex, w1) \<Rightarrow> (Inl ex, w1)
      | (Inr folderId1, w1) \<Rightarrow>
          if targetName v file = []
          then (Inl Exit1, Errorf ''could not discover target file name'' [] w1)
          else
            (case uploadFile os svc file folderId1 (main_filenamePrefix v @ targetName v file)
                    (main_mimeType v) (main_overwriteFlag v) w1 of
               (Inl Panic, w2) \<Rightarrow> (Inl Crash, w2)
             | (Inl (Err err), w2) \<Rightarrow>
                 (Inl Exit1, Errorf ''uploading file failed with error: %s'' [Str err] w2)
             | (Inr u, w2) \<Rightarrow> (Inr folderId1, w2)))"
proof -
  have "(if main_filenamePrefix v \<noteq> [] then main_filenamePrefix v @ targetName v file
         else targetName v file) = main_filenamePrefix v @ targetName v file"
    by simp
  then show ?thesis
    unfolding loopBody_def Let_def Fatalf_def by (simp only: prod.case)
qed

lemma loopBody_reset:
  "loopBody os svc v folderId file w = loopBody os svc v folderId' file w"
  by (simp only: loopBody_unfold)

lemma filesLoop_reset:
  "filesLoop os svc v folderId files w = filesLoop os svc v folderId' files w"
  by (cases files) (simp_all add: loopBody_reset [of os svc v folderId _ w folderId'])

lemma mirrorDirectories_effects:
  "open_files (snd (mirrorDirectories svc v folderId file w)) = open_files w"
  "filter isUpload (calls (snd (mirrorDirectories svc v folderId file w))) =
     filter isUpload (calls w)"
  using mirrorLoop_effects [of svc folderId "Split (Dir file) sep"
          "Infof ''Mirroring directory structure: %v'' [Strs (Split (Dir file) sep)] w"]
  by (simp_all add: mirrorDirectories_def)

lemma mirrorDirectories_exit:
  assumes "fst (mirrorDirectories svc v folderId file w) = Inl ex"
  shows "ex = (if svc = None then Crash else Exit1)"
proof (cases svc)
  case None
  with assms mirrorLoop_None [OF Split_not_Nil, of folderId "Dir file" sep]
  show ?thesis by (auto simp: mirrorDirectories_def split: if_splits)
next
  case (Some s)
  with assms mirrorLoop_Some_exit [of s folderId "Split (Dir file) sep" _ ex]
  show ?thesis by (auto simp: mirrorDirectories_def split: if_splits)
qed

lemma loopBody_empty_name:
  assumes "targetName v file = []"
  shows "loopBody os svc v folderId file w =
     (case mirrorDirectories svc v (main_originalFolderId v) file
             (Infof ''Processing file %s'' [Str file] w) of
        (Inl ex, w1) \<Rightarrow> (Inl ex, w1)
      | (Inr folderId1, w1) \<Rightarrow>
          (Inl Exit1, Errorf ''could not discover target file name'' [] w1))"
  using assms by (simp add: loopBody_unfold split: prod.splits sum.splits)

lemma loopBody_after_mirror:
  assumes "mirrorDirectories svc v (main_originalFolderId v) file
             (Infof ''Processing file %s'' [Str file] w) = (Inr folderId1, w1)"
    and "targetName v file \<noteq> []"
  shows "loopBody os svc v folderId file w =
     (case uploadFile os svc file folderId1 (main_filenamePrefix v @ targetName v file)
             (main_mimeType v) (main_overwriteFlag v) w1 of
        (Inl Panic, w2) \<Rightarrow> (Inl Crash, w2)
      | (Inl (Err err), w2) \<Rightarrow>
          (Inl Exit1, Errorf ''uploading file failed with error: %s'' [Str err] w2)
      | (Inr u, w2) \<Rightarrow> (Inr folderId1, w2))"
  using assms by (simp add: loopBody_unfold)

lemma loopBody_after_mirror_effects:
  assumes "mirrorDirectories svc v (main_originalFolderId v) file
             (Infof ''Processing file %s'' [Str file] w) = (Inr folderId1, w1)"
    and "targetName v file \<noteq> []"
  shows "calls (snd (loopBody os svc v folderId file w)) =
           calls (snd (uploadFile os svc file folderId1
                         (main_filenamePrefix v @ targetName v file)
                         (main_mimeType v) (main_overwriteFlag v) w1))"
    and "open_files (snd (loopBody os svc v folderId file w)) =
           open_files (snd (uploadFile os svc file folderId1
                              (main_filenamePrefix v @ targetName v file)
                              (main_mimeType v) (main_overwriteFlag v) w1))"
    and "fst (loopBody os svc v folderId file w) = Inr folderId' \<Longrightarrow> folderId' = folderId1"
  unfolding loopBody_after_mirror [OF assms]
  by (auto split: prod.splits sum.splits failure.splits)

lemma loopBody_create_calls:
  assumes m: "mirrorDirectories (Some s) v (main_originalFolderId v) file
             (Infof ''Processing file %s'' [Str file] w) = (Inr folderId1, w1)"
    and t: "targetName v file \<noteq> []"
    and o: "\<not> main_overwriteFlag v"
    and f: "Lstat os file = Inr fi" "\<not> IsDir fi" "Open os file = Inr f"
  shows "calls (snd (loopBody os (Some s) v folderId file w)) =
           calls w1 @
           [CreateReq (fileCreate f folderId1 (main_filenamePrefix v @ targetName v file)
                         (main_mimeType v))]"
  using o f by (simp add: loopBody_after_mirror_effects(1) [OF m t] uploadFile_def
                  uploadToDrive_calls)



subsection \<open>The lines logged decide nothing\<close>

lemma sameEffects_refl [simp]: "sameEffects w w"
  by (simp add: sameEffects_def)

lemma sameEffects_log [simp]:
  "sameEffects (Infof m a w) w' = sameEffects w w'"
  "sameEffects (Debugf m a w) w' = sameEffects w w'"
  "sameEffects (Warningf m a w) w' = sameEffects w w'"
  "sameEffects (Errorf m a w) w' = sameEffects w w'"
  "sameEffects (AddMask p w) w' = sameEffects w w'"
  "sameEffects w (Infof m a w') = sameEffects w w'"
  "sameEffects w (Debugf m a w') = sameEffects w w'"
  "sameEffects w (Warningf m a w') = sameEffects w w'"
  "sameEffects w (Errorf m a w') = sameEffects w w'"
  "sameEffects w (AddMask p w') = sameEffects w w'"
  by (simp_all add: sameEffects_def)

lemma simRes_pair [simp]: "simRes (a, w) (b, w') = (a = b \<and> sameEffects w w')"
  by (simp add: simRes_def)

lemma simResE:
  assumes "simRes p q"
  obtains a w w' where "p = (a, w)" and "q = (a, w')" and "sameEffects w w'"
  using assms by (cases p; cases q) (auto simp: simRes_def)

lemma Files_List_Do_sim:
  "sameEffects w w' \<Longrightarrow> simRes (Files_List_Do svc c w) (Files_List_Do svc c w')"
  by (auto simp: sameEffects_def Files_List_Do_def split: option.splits sum.splits)

lemma Files_Create_Do_sim:
  "sameEffects w w' \<Longrightarrow> simRes (Files_Create_Do svc c w) (Files_Create_Do svc c w')"
  by (auto simp: sameEffects_def Files_Create_Do_def split: option.splits sum.splits)

lemma Files_Update_Do_sim:
  "sameEffects w w' \<Longrightarrow> simRes (Files_Update_Do svc c w) (Files_Update_Do svc c w')"
  by (auto simp: sameEffects_def Files_Update_Do_def split: option.splits sum.splits)

lemma uploadCall_sim:
  "sameEffects w w' \<Longrightarrow>
   simRes (uploadCall svc f folderId driveFile name mimeType w)
          (uploadCall svc f folderId driveFile name mimeType w')"
  by (simp add: uploadCall_def Files_Create_Do_sim Files_Update_Do_sim split: option.splits)

lemma uploadToDrive_sim:
  assumes "sameEffects w w'"
  shows "simRes (uploadToDrive os svc filename folderId driveFile name mimeType w)
                (uploadToDrive os svc filename folderId driveFile name mimeType w')"
proof -
  have step: "simRes
      (case uploadCall svc f folderId driveFile name mimeType
              (w\<lparr>open_files := open_files w @ [f]\<rparr>) of
         (Inl Panic, w'') \<Rightarrow> (Inl Panic, w'')
       | (Inl (Err err), w'') \<Rightarrow> (Inl (Err (m err)), w'')
       | (Inr x, w'') \<Rightarrow> (Inr (), Debugf ''uploaded/updated file.'' [] w''))
      (case uploadCall svc f folderId driveFile name mimeType
              (w'\<lparr>open_files := open_files w' @ [f]\<rparr>) of
         (Inl Panic, w'') \<Rightarrow> (Inl Panic, w'')
       | (Inl (Err err), w'') \<Rightarrow> (Inl (Err (m err)), w'')
       | (Inr x, w'') \<Rightarrow> (Inr (), Debugf ''uploaded/updated file.'' [] w''))"
    for f and m :: "string \<Rightarrow> string"
  proof -
    from assms have "sameEffects (w\<lparr>open_files := open_files w @ [f]\<rparr>)
                                 (w'\<lparr>open_files := open_files w' @ [f]\<rparr>)"
      by (simp add: sameEffects_def)
    from uploadCall_sim [OF this, of svc f folderId driveFile name mimeType]
    show ?thesis
      by (elim simResE) (auto split: sum.splits failure.splits)
  qed
  show ?thesis
    unfolding uploadToDrive_def using assms
    by (simp add: step split: sum.splits)
qed

lemma parentLoop_sim:
  "sameEffects w w' \<Longrightarrow> simRes (parentLoop folderId ps w) (parentLoop folderId ps w')"
  by (induction ps) simp_all

lemma findLoop_sim:
  "sameEffects w w' \<Longrightarrow>
   simRes (findLoop name folderId r cur w) (findLoop name folderId r cur w')"
proof (induction r arbitrary: cur w w')
  case Nil
  then show ?case by simp
next
  case (Cons i r)
  show ?case
  proof (cases "name = file_Name i")
    case True
    from parentLoop_sim [OF Cons.prems, of folderId "file_Parents i"]
    show ?thesis
    proof (elim simResE)
      fix a w1 w1'
      assume "parentLoop folderId (file_Parents i) w = (a, w1)"
        and "parentLoop folderId (file_Parents i) w' = (a, w1')"
        and "sameEffects w1 w1'"
      with True Cons.IH [of w1 w1' "Some i"] show ?thesis by simp
    qed
  next
    case False
    with Cons.IH [OF Cons.prems, of cur] show ?thesis by simp
  qed
qed

lemma uploadFile_sim:
  assumes "sameEffects w w'"
  shows "simRes (uploadFile os svc filename folderId name mimeType overwriteFlag w)
                (uploadFile os svc filename folderId name mimeType overwriteFlag w')"
proof (cases overwriteFlag)
  case False
  with assms show ?thesis by (simp add: uploadFile_def uploadToDrive_sim)
next
  case True
  from assms have "sameEffects (Infof ''target file name: %s'' [Str name] w)
                               (Infof ''target file name: %s'' [Str name] w')" by simp
  from Files_List_Do_sim [OF this, of svc "fileQuery name"]
  show ?thesis
  proof (elim simResE)
    fix a w1 w1'
    assume l: "Files_List_Do svc (fileQuery name) (Infof ''target file name: %s'' [Str name] w) =
                 (a, w1)"
      "Files_List_Do svc (fileQuery name) (Infof ''target file name: %s'' [Str name] w') =
                 (a, w1')"
      and s1: "sameEffects w1 w1'"
    show ?thesis
    proof (cases a)
      case (Inl f)
      with True l s1 show ?thesis by (cases f) (simp_all add: uploadFile_def)
    next
      case (Inr r)
      from s1 have "sameEffects (Infof ''Files: %d'' [Num (length r)] w1)
                                (Infof ''Files: %d'' [Num (length r)] w1')" by simp
      from findLoop_sim [OF this, of name folderId r None]
      show ?thesis
      proof (elim simResE)
        fix cur w2 w2'
        assume "findLoop name folderId r None (Infof ''Files: %d'' [Num (length r)] w1) =
                  (cur, w2)"
          "findLoop name folderId r None (Infof ''Files: %d'' [Num (length r)] w1') =
                  (cur, w2')"
          and "sameEffects w2 w2'"
        with True l Inr show ?thesis
          by (cases cur) (simp_all add: uploadFile_def uploadToDrive_sim)
      qed
    qed
  qed
qed

lemma scanParents_sim:
  "sameEffects w w' \<Longrightarrow>
   (\<exists>n' nid' w1 w1'. scanParents folderId name i ps (n, nid, w) = (n', nid', w1) \<and>
                     scanParents folderId name i ps (n, nid, w') = (n', nid', w1') \<and>
                     sameEffects w1 w1')"
  by (induction ps arbitrary: n nid w w') simp_all

lemma scanFolders_sim:
  "sameEffects w w' \<Longrightarrow>
   (\<exists>n' nid' w1 w1'. scanFolders folderId name r (n, nid, w) = (n', nid', w1) \<and>
                     scanFolders folderId name r (n, nid, w') = (n', nid', w1') \<and>
                     sameEffects w1 w1')"
proof (induction r arbitrary: n nid w w')
  case Nil
  then show ?case by simp
next
  case (Cons i r)
  from scanParents_sim [OF Cons.prems, of folderId name i "file_Parents i" n nid]
  obtain n1 nid1 w1 w1' where
    "scanParents folderId name i (file_Parents i) (n, nid, w) = (n1, nid1, w1)"
    "scanParents folderId name i (file_Parents i) (n, nid, w') = (n1, nid1, w1')"
    "sameEffects w1 w1'"
    by blast
  with Cons.IH [of w1 w1' n1 nid1] show ?case by simp
qed

lemma createDriveDirectory_sim:
  assumes "sameEffects w w'"
  shows "simRes (createDriveDirectory svc folderId name w)
                (createDriveDirectory svc folderId name w')"
proof -
  from assms have "sameEffects (Infof ''Checking for existing folder %s'' [Str name] w)
                               (Infof ''Checking for existing folder %s'' [Str name] w')"
    by simp
  from Files_List_Do_sim [OF this, of svc "folderQuery name"]
  show ?thesis
  proof (elim simResE)
    fix a w1 w1'
    assume l: "Files_List_Do svc (folderQuery name)
                 (Infof ''Checking for existing folder %s'' [Str name] w) = (a, w1)"
      "Files_List_Do svc (folderQuery name)
                 (Infof ''Checking for existing folder %s'' [Str name] w') = (a, w1')"
      and s1: "sameEffects w1 w1'"
    show ?thesis
    proof (cases a)
      case (Inl f)
      with l s1 show ?thesis by (cases f) (simp_all add: createDriveDirectory_def)
    next
      case (Inr r)
      from scanFolders_sim [OF s1, of folderId name r 0 "[]"]
      obtain n nid w2 w2' where sf:
        "scanFolders folderId name r (0, [], w1) = (n, nid, w2)"
        "scanFolders folderId name r (0, [], w1') = (n, nid, w2')"
        and s2: "sameEffects w2 w2'"
        by blast
      show ?thesis
      proof (cases "n = 0")
        case False
        with l Inr sf s2 show ?thesis by (simp add: createDriveDirectory_def)
      next
        case True
        from s2 have "sameEffects (Infof ''Creating folder: %s'' [Str name] w2)
                                  (Infof ''Creating folder: %s'' [Str name] w2')" by simp
        from Files_Create_Do_sim [OF this, of svc "folderCreate folderId name"]
        show ?thesis
        proof (elim simResE)
          fix b w3 w3'
          assume "Files_Create_Do svc (folderCreate folderId name)
                    (Infof ''Creating folder: %s'' [Str name] w2) = (b, w3)"
            "Files_Create_Do svc (folderCreate folderId name)
                    (Infof ''Creating folder: %s'' [Str name] w2') = (b, w3')"
            and "sameEffects w3 w3'"
          with l Inr sf True show ?thesis
            by (simp add: createDriveDirectory_def split: sum.splits failure.splits)
        qed
      qed
    qed
  qed
qed

lemma mirrorLoop_sim:
  "sameEffects w w' \<Longrightarrow>
   simRes (mirrorLoop svc folderId dirs w) (mirrorLoop svc folderId dirs w')"
proof (induction dirs arbitrary: folderId w w')
  case Nil
  then show ?case by simp
next
  case (Cons dir rest)
  from createDriveDirectory_sim [OF Cons.prems, of svc folderId dir]
  show ?case
  proof (elim simResE)
    fix a w1 w1'
    assume c: "createDriveDirectory svc folderId dir w = (a, w1)"
      "createDriveDirectory svc folderId dir w' = (a, w1')"
      and s1: "sameEffects w1 w1'"
    show ?thesis
    proof (cases a)
      case (Inl f)
      with c s1 show ?thesis by (cases f) simp_all
    next
      case (Inr t)
      with c Cons.IH [OF s1, of t] show ?thesis by simp
    qed
  qed
qed

lemma mirrorDirectories_sim:
  "sameEffects w w' \<Longrightarrow>
   simRes (mirrorDirectories svc v folderId file w) (mirrorDirectories svc v folderId file w')"
  by (simp add: mirrorDirectories_def mirrorLoop_sim)

lemma loopBody_sim:
  assumes "sameEffects w w'"
  shows "simRes (loopBody os svc v folderId file w) (loopBody os svc v folderId file w')"
proof -
  from assms have "sameEffects (Infof ''Processing file %s'' [Str file] w)
                               (Infof ''Processing file %s'' [Str file] w')" by simp
  from mirrorDirectories_sim [OF this, of svc v "main_originalFolderId v" "file"]
  show ?thesis
  proof (elim simResE)
    fix a w1 w1'
    assume m: "mirrorDirectories svc v (main_originalFolderId v) file
                 (Infof ''Processing file %s'' [Str file] w) = (a, w1)"
      "mirrorDirectories svc v (main_originalFolderId v) file
                 (Infof ''Processing file %s'' [Str file] w') = (a, w1')"
      and s1: "sameEffects w1 w1'"
    show ?thesis
    proof (cases a)
      case (Inl ex)
      with m s1 show ?thesis by (simp add: loopBody_unfold)
    next
      case (Inr folderId1)
      show ?thesis
      proof (cases "targetName v file = []")
        case True
        with m Inr s1 show ?thesis by (simp add: loopBody_unfold)
      next
        case False
        from uploadFile_sim [OF s1, of os svc "file" folderId1
               "main_filenamePrefix v @ targetName v file" "main_mimeType v"
               "main_overwriteFlag v"]
        show ?thesis
        proof (elim simResE)
          fix b w2 w2'
          assume "uploadFile os svc file folderId1 (main_filenamePrefix v @ targetName v file)
                    (main_mimeType v) (main_overwriteFlag v) w1 = (b, w2)"
            "uploadFile os svc file folderId1 (main_filenamePrefix v @ targetName v file)
                    (main_mimeType v) (main_overwriteFlag v) w1' = (b, w2')"
            and "sameEffects w2 w2'"
          with m Inr False show ?thesis
            by (simp add: loopBody_unfold split: sum.splits failure.splits)
        qed
      qed
    qed
  qed
qed

lemma filesLoop_sim:
  "sameEffects w w' \<Longrightarrow>
   simRes (filesLoop os svc v folderId files w) (filesLoop os svc v folderId files w')"
proof (induction files arbitrary: folderId w w')
  case Nil
  then show ?case by simp
next
  case (Cons f rest)
  from loopBody_sim [OF Cons.prems, of os svc v folderId f]
  show ?case
  proof (elim simResE)
    fix a w1 w1'
    assume l: "loopBody os svc v folderId f w = (a, w1)"
      "loopBody os svc v folderId f w' = (a, w1')"
      and s1: "sameEffects w1 w1'"
    show ?thesis
    proof (cases a)
      case (Inl ex)
      with l s1 show ?thesis by simp
    next
      case (Inr t)
      with l Cons.IH [OF s1, of t] show ?thesis by simp
    qed
  qed
qed

text \<open>The functions below main read the inputs through main's variables only.\<close>

lemma uploadToDrive_GetInput:
  "uploadToDrive (os\<lparr>GetInput := g\<rparr>) = uploadToDrive os"
  by (simp add: fun_eq_iff uploadToDrive_def cong: sum.case_cong if_cong)

lemma uploadFile_GetInput:
  "uploadFile (os\<lparr>GetInput := g\<rparr>) = uploadFile os"
  by (auto simp: fun_eq_iff uploadFile_def uploadToDrive_GetInput Let_def
           split: prod.splits sum.splits option.splits failure.splits)

lemma loopBody_GetInput:
  "loopBody (os\<lparr>GetInput := g\<rparr>) = loopBody os"
  by (auto simp: fun_eq_iff loopBody_def uploadFile_GetInput Let_def
           split: prod.splits sum.splits failure.splits)

lemma filesLoop_GetInput:
  "filesLoop (os\<lparr>GetInput := g\<rparr>) svc v folderId files w = filesLoop os svc v folderId files w"
  by (induction files arbitrary: folderId w)
     (simp_all add: loopBody_GetInput split: prod.splits sum.splits)

lemma mainUpload_sim:
  assumes "sameEffects w w'" and "g credentialsInput = GetInput os credentialsInput"
  shows "simRes (mainUpload (os\<lparr>GetInput := g\<rparr>) files v w) (mainUpload os files v w')"
  using assms
  by (simp add: mainUpload_def missingInput_def Fatalf_def Let_def filesLoop_GetInput
        filesLoop_sim split: sum.splits)

lemma ParseBool_unparseable: "snd (ParseBool x) \<noteq> None \<Longrightarrow> fst (ParseBool x) = False"
  by (auto simp: ParseBool_def split: if_splits)

lemma input_names_distinct:
  "overwriteInput \<noteq> filenameInput" "overwriteInput \<noteq> nameInput"
  "overwriteInput \<noteq> folderIdInput" "overwriteInput \<noteq> credentialsInput"
  "overwriteInput \<noteq> mimeTypeInput" "overwriteInput \<noteq> useCompleteSourceName"
  "overwriteInput \<noteq> mirrorDirectoryStructureInput" "overwriteInput \<noteq> namePrefixInput"
  "useCompleteSourceName \<noteq> filenameInput" "useCompleteSourceName \<noteq> nameInput"
  "useCompleteSourceName \<noteq> folderIdInput" "useCompleteSourceName \<noteq> credentialsInput"
  "useCompleteSourceName \<noteq> mimeTypeInput" "useCompleteSourceName \<noteq> overwriteInput"
  "useCompleteSourceName \<noteq> mirrorDirectoryStructureInput"
  "useCompleteSourceName \<noteq> namePrefixInput"
  "mirrorDirectoryStructureInput \<noteq> filenameInput" "mirrorDirectoryStructureInput \<noteq> nameInput"
  "mirrorDirectoryStructureInput \<noteq> folderIdInput"
  "mirrorDirectoryStructureInput \<noteq> credentialsInput"
  "mirrorDirectoryStructureInput \<noteq> mimeTypeInput"
  "mirrorDirectoryStructureInput \<noteq> overwriteInput"
  "mirrorDirectoryStructureInput \<noteq> useCompleteSourceName"
  "mirrorDirectoryStructureInput \<noteq> namePrefixInput"
  by (simp_all add: filenameInput_def nameInput_def folderIdInput_def credentialsInput_def
        overwriteInput_def mimeTypeInput_def useCompleteSourceName_def
        mirrorDirectoryStructureInput_def namePrefixInput_def)

lemma main_flag_unset:
  assumes x: "x \<noteq> []" "snd (ParseBool x) \<noteq> None"
    and n: "inputName = overwriteInput \<or> inputName = useCompleteSourceName \<or>
            inputName = mirrorDirectoryStructureInput"
    and g: "GetInput os inputName = x"
  shows "simRes (main (os\<lparr>GetInput := (GetInput os)(inputName := [])\<rparr>) w) (main os w)"
proof -
  note [simp] = input_names_distinct input_names_distinct [symmetric]
  from x(2) have f: "fst (ParseBool x) = False" by (rule ParseBool_unparseable)
  from n consider "inputName = overwriteInput" | "inputName = useCompleteSourceName"
    | "inputName = mirrorDirectoryStructureInput" by blast
  then show ?thesis
  proof cases
    case 1
    with x f g show ?thesis
      by (auto simp: main_def readOverwrite_def readUseCompleteSourceFilenameAsName_def
            readMirrorDirectoryStructure_def missingInput_def Fatalf_def mainUpload_sim
          split: sum.splits)
  next
    case 2
    with x f g show ?thesis
      by (auto simp: main_def readOverwrite_def readUseCompleteSourceFilenameAsName_def
            readMirrorDirectoryStructure_def missingInput_def Fatalf_def mainUpload_sim
          split: sum.splits)
  next
    case 3
    with x f g show ?thesis
      by (auto simp: main_def readOverwrite_def readUseCompleteSourceFilenameAsName_def
            readMirrorDirectoryStructure_def missingInput_def Fatalf_def mainUpload_sim
          split: sum.splits)
  qed
qed

subsection \<open>Unfolding a run on a concrete environment\<close>

lemmas run_defs =
  demo_os_def demo_svc_def listing_svc_def demo_listing_def demo_vars_def demo_world_def
  loopBody_def mirrorDirectories_def targetName_def Base_def lastElement_def
  stripTrailing_def sep_def uploadFile_def uploadToDrive_def uploadCall_def
  Files_Create_Do_def Files_List_Do_def Files_Update_Do_def createDriveDirectory_def
  Infof_def Debugf_def Errorf_def Warningf_def AddMask_def Fatalf_def Let_def
  fileCreate_def folderCreate_def fileUpdate_def

lemmas main_defs =
  main_def mainUpload_def readOverwrite_def readUseCompleteSourceFilenameAsName_def
  readMirrorDirectoryStructure_def missingInput_def flag_inputs_def demo_inputs_def
  filenameInput_def nameInput_def folderIdInput_def credentialsInput_def overwriteInput_def
  mimeTypeInput_def useCompleteSourceName_def mirrorDirectoryStructureInput_def
  namePrefixInput_def TrimSuffix_def ParseBool_def

subsection \<open>A run of main that uploads every match\<close>







subsection \<open>C3: the target name\<close>



subsection \<open>C4: the working folder\<close>

text \<open>
  C4: whatever value the variable \<^verbatim>\<open>folderId\<close> holds when an iteration of the loop over
  the files begins, the iteration and all later ones proceed as from the originally
  configured folder. With directory mirroring enabled, the directory part of the path is
  split at the separator and the loop over the segments is the left fold of the resolver
  over them, from the folder given: each call's parent is the result of the call before.
  When the fold succeeds, the searches issued are those of the segments, one each, in
  order; and the folder it ends in is the parent of the object that the upload of the
  file creates.
\<close>

theorem mirroring_restarts_from_root:
  "filesLoop os svc v folderId files w = filesLoop os svc v (main_originalFolderId v) files w \<and>
   loopBody os svc v folderId path w = loopBody os svc v (main_originalFolderId v) path w \<and>
   mirrorDirectories svc v root path w0 =
     (if main_mirrorDirectoryStructureFlag v
      then spec_resolveChain svc root (Split (Dir path) sep)
             (Infof ''Mirroring directory structure: %v'' [Strs (Split (Dir path) sep)] w0)
      else (Inr root, w0)) \<and>
   (mirrorLoop (Some s) root segments w0 = (Inr target, w1) \<longrightarrow>
      listQueries (drop (length (calls w0)) (calls w1)) =
        map (\<lambda>d. list_Q (folderQuery d)) segments) \<and>
   (mirrorDirectories (Some s) v (main_originalFolderId v) path
      (Infof ''Processing file %s'' [Str path] w) = (Inr target, w1) \<and>
    targetName v path \<noteq> [] \<and> \<not> main_overwriteFlag v \<and>
    Lstat os path = Inr fi \<and> \<not> IsDir fi \<and> Open os path = Inr f \<longrightarrow>
      calls (snd (loopBody os (Some s) v folderId path w)) =
        calls w1 @
        [CreateReq (fileCreate f target (main_filenamePrefix v @ targetName v path)
                      (main_mimeType v))])"
proof (intro conjI impI)
  show "filesLoop os svc v folderId files w = filesLoop os svc v (main_originalFolderId v) files w"
    by (rule filesLoop_reset)
  show "loopBody os svc v folderId path w = loopBody os svc v (main_originalFolderId v) path w"
    by (rule loopBody_reset)
  show "mirrorDirectories svc v root path w0 =
     (if main_mirrorDirectoryStructureFlag v
      then spec_resolveChain svc root (Split (Dir path) sep)
             (Infof ''Mirroring directory structure: %v'' [Strs (Split (Dir path) sep)] w0)
      else (Inr root, w0))"
    by (simp add: mirrorDirectories_def mirrorLoop_spec)
next
  assume "mirrorLoop (Some s) root segments w0 = (Inr target, w1)"
  from mirrorLoop_success_calls [OF this]
  obtain added where "calls w1 = calls w0 @ added"
    and "listQueries added = map (\<lambda>d. list_Q (folderQuery d)) segments"
    by blast
  then show "listQueries (drop (length (calls w0)) (calls w1)) =
               map (\<lambda>d. list_Q (folderQuery d)) segments"
    by simp
next
  assume a: "mirrorDirectories (Some s) v (main_originalFolderId v) path
      (Infof ''Processing file %s'' [Str path] w) = (Inr target, w1) \<and>
    targetName v path \<noteq> [] \<and> \<not> main_overwriteFlag v \<and>
    Lstat os path = Inr fi \<and> \<not> IsDir fi \<and> Open os path = Inr f"
  then show "calls (snd (loopBody os (Some s) v folderId path w)) =
        calls w1 @
        [CreateReq (fileCreate f target (main_filenamePrefix v @ targetName v path)
                      (main_mimeType v))]"
    using loopBody_create_calls [of s v path w target w1 os fi f folderId] by simp
qed

theorem mirroring_restarts_from_root_witness:
  "Split (Dir ''a/b/file.txt'') sep = [''a'', ''b''] \<and>
   Split (Dir ''c/x.txt'') sep = [''c''] \<and>
   fst (mirrorLoop (Some demo_svc) ''ROOT'' [''a'', ''b''] demo_world) = Inr ''new'' \<and>
   listQueries (calls (snd (mirrorLoop (Some demo_svc) ''ROOT'' [''a'', ''b''] demo_world))) =
     [list_Q (folderQuery ''a''), list_Q (folderQuery ''b'')] \<and>
   calls (snd (filesLoop (demo_os demo_inputs []) (Some demo_svc)
                 (demo_vars\<lparr>main_mirrorDirectoryStructureFlag := True,
                             main_useSourceFilename := True\<rparr>)
                 ''elsewhere'' [''a/b/file.txt'', ''c/x.txt''] demo_world)) =
     [ListReq (folderQuery ''a''), CreateReq (folderCreate ''ROOT'' ''a''),
      ListReq (folderQuery ''b''), CreateReq (folderCreate ''new'' ''b''),
      CreateReq (fileCreate (OsFile ''a/b/file.txt'') ''new'' ''file.txt'' ''text/plain''),
      ListReq (folderQuery ''c''), CreateReq (folderCreate ''ROOT'' ''c''),
      CreateReq (fileCreate (OsFile ''c/x.txt'') ''new'' ''x.txt'' ''text/plain'')]"
proof -
  have s1: "Split (Dir ''a/b/file.txt'') sep = [''a'', ''b'']" by code_simp
  have s2: "Split (Dir ''c/x.txt'') sep = [''c'']" by code_simp
  have "calls (snd (filesLoop (demo_os demo_inputs []) (Some demo_svc)
                 (demo_vars\<lparr>main_mirrorDirectoryStructureFlag := True,
                             main_useSourceFilename := True\<rparr>)
                 ''ROOT'' [''a/b/file.txt'', ''c/x.txt''] demo_world)) =
     [ListReq (folderQuery ''a''), CreateReq (folderCreate ''ROOT'' ''a''),
      ListReq (folderQuery ''b''), CreateReq (folderCreate ''new'' ''b''),
      CreateReq (fileCreate (OsFile ''a/b/file.txt'') ''new'' ''file.txt'' ''text/plain''),
      ListReq (folderQuery ''c''), CreateReq (folderCreate ''ROOT'' ''c''),
      CreateReq (fileCreate (OsFile ''c/x.txt'') ''new'' ''x.txt'' ''text/plain'')]"
    by (simp add: s1 [unfolded sep_def] s2 [unfolded sep_def] run_defs folderQuery_def)
  moreover have "mirrorLoop (Some demo_svc) ''ROOT'' [''a'', ''b''] demo_world =
      (Inr ''new'',
       \<lparr>calls = [ListReq (folderQuery ''a''), CreateReq (folderCreate ''ROOT'' ''a''),
                 ListReq (folderQuery ''b''), CreateReq (folderCreate ''new'' ''b'')],
        open_files = [],
        logged = [InfoLine ''Checking for existing folder %s'' [Str ''a''],
                  InfoLine ''Creating folder: %s'' [Str ''a''],
                  InfoLine ''Checking for existing folder %s'' [Str ''b''],
                  InfoLine ''Creating folder: %s'' [Str ''b'']]\<rparr>)"
    by (simp add: run_defs)
  ultimately show ?thesis
    using s1 s2
      mirroring_restarts_from_root
        [where os = "demo_os demo_inputs []" and svc = "Some demo_svc"
           and v = "demo_vars\<lparr>main_mirrorDirectoryStructureFlag := True,
                               main_useSourceFilename := True\<rparr>"
           and folderId = "''elsewhere''" and files = "[''a/b/file.txt'', ''c/x.txt'']"
           and w = demo_world and s = demo_svc and root = "''ROOT''"
           and segments = "[''a'', ''b'']" and ?w0.0 = demo_world and target = "''new''"]
    by (simp add: demo_vars_def demo_world_def)
qed

subsection \<open>C7: an empty target name\<close>

text \<open>
  C7: when the final target name of a file (the derived name behind the prefix) is empty,
  the loop over the files ends the process there: with status 1 (through a failed
  directory segment or the check of the name), or with the panic of a nil service when
  mirroring is enabled. No local file is opened, no upload request is issued, and the
  files after it are never looked at.
\<close>

theorem empty_target_name_is_fatal:
  assumes "main_filenamePrefix v @ targetName v path = []"
  shows "fst (filesLoop os svc v folderId (path # rest) w) =
           (if svc = None \<and> main_mirrorDirectoryStructureFlag v then Crash else Exit1) \<and>
         filesLoop os svc v folderId (path # rest) w = filesLoop os svc v folderId [path] w \<and>
         open_files (snd (filesLoop os svc v folderId (path # rest) w)) = open_files w \<and>
         filter isUpload (calls (snd (filesLoop os svc v folderId (path # rest) w))) =
           filter isUpload (calls w)"
proof -
  let ?w0 = "Infof ''Processing file %s'' [Str path] w"
  from assms have t: "targetName v path = []" by simp
  obtain r w1 where m: "mirrorDirectories svc v (main_originalFolderId v) path ?w0 = (r, w1)"
    by (cases "mirrorDirectories svc v (main_originalFolderId v) path ?w0")
  from mirrorDirectories_effects [of svc v "main_originalFolderId v" path ?w0] m
  have e: "open_files w1 = open_files w" "filter isUpload (calls w1) = filter isUpload (calls w)"
    by simp_all
  show ?thesis
  proof (cases r)
    case (Inl ex)
    with m mirrorDirectories_exit [of svc v "main_originalFolderId v" path ?w0 ex]
    have ex: "ex = (if svc = None then Crash else Exit1)" by simp
    from m Inl have mir: "main_mirrorDirectoryStructureFlag v"
      by (auto simp: mirrorDirectories_def split: if_splits)
    from Inl m t have "loopBody os svc v folderId path w = (Inl ex, w1)"
      by (simp add: loopBody_empty_name)
    with e ex mir show ?thesis by simp
  next
    case (Inr folderId1)
    with m t have l: "loopBody os svc v folderId path w =
        (Inl Exit1, Errorf ''could not discover target file name'' [] w1)"
      by (simp add: loopBody_empty_name)
    have "\<not> (svc = None \<and> main_mirrorDirectoryStructureFlag v)"
    proof
      assume a: "svc = None \<and> main_mirrorDirectoryStructureFlag v"
      with mirrorLoop_None [OF Split_not_Nil, of "main_originalFolderId v" "Dir path" sep]
      have "fst (mirrorDirectories svc v (main_originalFolderId v) path ?w0) = Inl Crash"
        by (simp add: mirrorDirectories_def)
      with m Inr show False by simp
    qed
    with l e show ?thesis by simp
  qed
qed

theorem empty_target_name_is_fatal_witness:
  "main_filenamePrefix (demo_vars\<lparr>main_useCompleteSourceFilenameAsNameFlag := True\<rparr>) @
     targetName (demo_vars\<lparr>main_useCompleteSourceFilenameAsNameFlag := True\<rparr>) [] = [] \<and>
   filesLoop (demo_os demo_inputs []) (Some demo_svc)
     (demo_vars\<lparr>main_useCompleteSourceFilenameAsNameFlag := True\<rparr>) ''ROOT''
     [[], ''report.txt''] demo_world =
     (Exit1,
      \<lparr>calls = [], open_files = [],
       logged = [InfoLine ''Processing file %s'' [Str []],
                 ErrorLine ''could not discover target file name'' []]\<rparr>)"
proof -
  have h: "main_filenamePrefix (demo_vars\<lparr>main_useCompleteSourceFilenameAsNameFlag := True\<rparr>) @
     targetName (demo_vars\<lparr>main_useCompleteSourceFilenameAsNameFlag := True\<rparr>) [] = []"
    by (simp add: demo_vars_def targetName_def)
  show ?thesis
    using h empty_target_name_is_fatal [OF h, where os = "demo_os demo_inputs []"
                 and svc = "Some demo_svc" and folderId = "''ROOT''"
                 and rest = "[''report.txt'']" and w = demo_world]
    by (simp add: run_defs)
qed

subsection \<open>C8: a matched directory\<close>




subsection \<open>C10: a flag that is not a boolean\<close>

text \<open>
  C10: for a non-empty value that \<^verbatim>\<open>strconv.ParseBool\<close> rejects, each of the three flag
  inputs reads as false, logs nothing and ends nothing; and the run of main ends the same
  way, issues the same remote calls and opens the same files as the run in which that
  input is empty.
\<close>

theorem unparseable_flag_is_false:
  assumes "x \<noteq> []" and "snd (ParseBool x) \<noteq> None"
  shows "(GetInput os overwriteInput = x \<longrightarrow> readOverwrite os w = (False, w)) \<and>
         (GetInput os useCompleteSourceName = x \<longrightarrow>
            readUseCompleteSourceFilenameAsName os w = (False, w)) \<and>
         (GetInput os mirrorDirectoryStructureInput = x \<longrightarrow>
            readMirrorDirectoryStructure os w = (False, w)) \<and>
         ((inputName = overwriteInput \<or> inputName = useCompleteSourceName \<or>
           inputName = mirrorDirectoryStructureInput) \<and> GetInput os inputName = x \<longrightarrow>
            fst (main os w) = fst (main (os\<lparr>GetInput := (GetInput os)(inputName := [])\<rparr>) w) \<and>
            calls (snd (main os w)) =
              calls (snd (main (os\<lparr>GetInput := (GetInput os)(inputName := [])\<rparr>) w)) \<and>
            open_files (snd (main os w)) =
              open_files (snd (main (os\<lparr>GetInput := (GetInput os)(inputName := [])\<rparr>) w)))"
proof (intro conjI impI)
  from assms(2) have f: "fst (ParseBool x) = False" by (rule ParseBool_unparseable)
  show "readOverwrite os w = (False, w)" if "GetInput os overwriteInput = x"
    using that assms(1) f by (simp add: readOverwrite_def)
  show "readUseCompleteSourceFilenameAsName os w = (False, w)"
    if "GetInput os useCompleteSourceName = x"
    using that assms(1) f by (simp add: readUseCompleteSourceFilenameAsName_def)
  show "readMirrorDirectoryStructure os w = (False, w)"
    if "GetInput os mirrorDirectoryStructureInput = x"
    using that assms(1) f by (simp add: readMirrorDirectoryStructure_def)
next
  assume a: "(inputName = overwriteInput \<or> inputName = useCompleteSourceName \<or>
           inputName = mirrorDirectoryStructureInput) \<and> GetInput os inputName = x"
  then have n: "inputName = overwriteInput \<or> inputName = useCompleteSourceName \<or>
           inputName = mirrorDirectoryStructureInput" and g: "GetInput os inputName = x"
    by simp_all
  from main_flag_unset [OF assms n g, of w]
  have "simRes (main (os\<lparr>GetInput := (GetInput os)(inputName := [])\<rparr>) w) (main os w)" .
  then have r: "fst (main (os\<lparr>GetInput := (GetInput os)(inputName := [])\<rparr>) w) = fst (main os w)"
    "sameEffects (snd (main (os\<lparr>GetInput := (GetInput os)(inputName := [])\<rparr>) w))
                 (snd (main os w))"
    by (simp_all add: simRes_def)
  from r(1) show "fst (main os w) = fst (main (os\<lparr>GetInput := (GetInput os)(inputName := [])\<rparr>) w)"
    by simp
  from r(2) show "calls (snd (main os w)) =
              calls (snd (main (os\<lparr>GetInput := (GetInput os)(inputName := [])\<rparr>) w))"
    by (simp add: sameEffects_def)
  from r(2) show "open_files (snd (main os w)) =
              open_files (snd (main (os\<lparr>GetInput := (GetInput os)(inputName := [])\<rparr>) w))"
    by (simp add: sameEffects_def)
qed

theorem unparseable_flag_is_false_witness:
  "''yes'' \<noteq> [] \<and> snd (ParseBool ''yes'') \<noteq> None \<and>
   GetInput (demo_os (flag_inputs mirrorDirectoryStructureInput ''yes'') [''a/report.txt''])
     mirrorDirectoryStructureInput = ''yes'' \<and>
   readMirrorDirectoryStructure
     (demo_os (flag_inputs mirrorDirectoryStructureInput ''yes'') [''a/report.txt''])
     demo_world = (False, demo_world) \<and>
   readOverwrite (demo_os (flag_inputs overwriteInput ''yes'') [''a/report.txt''])
     demo_world = (False, demo_world) \<and>
   readUseCompleteSourceFilenameAsName
     (demo_os (flag_inputs useCompleteSourceName ''yes'') [''a/report.txt''])
     demo_world = (False, demo_world) \<and>
   fst (main (demo_os (flag_inputs mirrorDirectoryStructureInput ''yes'') [''a/report.txt''])
          demo_world) = Exit0 \<and>
   calls (snd (main (demo_os (flag_inputs mirrorDirectoryStructureInput ''yes'')
                       [''a/report.txt'']) demo_world)) =
     [CreateReq (fileCreate (OsFile ''a/report.txt'') ''ROOT'' ''report.txt'' [])] \<and>
   calls (snd (main (demo_os (flag_inputs mirrorDirectoryStructureInput []) [''a/report.txt''])
                 demo_world)) =
     [CreateReq (fileCreate (OsFile ''a/report.txt'') ''ROOT'' ''report.txt'' [])] \<and>
   calls (snd (main (demo_os (flag_inputs overwriteInput ''yes'') [''a/report.txt''])
                 demo_world)) =
     [CreateReq (fileCreate (OsFile ''a/report.txt'') ''ROOT'' ''report.txt'' [])] \<and>
   calls (snd (main (demo_os (flag_inputs useCompleteSourceName ''yes'') [''a/report.txt''])
                 demo_world)) =
     [CreateReq (fileCreate (OsFile ''a/report.txt'') ''ROOT'' ''report.txt'' [])]"
proof -
  have a: "''yes'' \<noteq> []" and b: "snd (ParseBool ''yes'') \<noteq> None"
    by (simp_all add: ParseBool_def)
  have e: "(demo_os (flag_inputs n ''yes'') [''a/report.txt''])
             \<lparr>GetInput := (GetInput (demo_os (flag_inputs n ''yes'') [''a/report.txt'']))
                            (n := [])\<rparr> =
           demo_os (flag_inputs n []) [''a/report.txt'']" for n
    by (simp add: demo_os_def flag_inputs_def fun_eq_iff)
  have r1: "main (demo_os (flag_inputs mirrorDirectoryStructureInput ''yes'') [''a/report.txt''])
             demo_world =
     (Exit0,
      \<lparr>calls = [CreateReq (fileCreate (OsFile ''a/report.txt'') ''ROOT'' ''report.txt'' [])],
       open_files = [OsFile ''a/report.txt''],
       logged = [InfoLine ''files: %v'' [Strs [''a/report.txt'']],
                 WarningLine ''%s is disabled.'' [Str ''false''],
                 InfoLine ''%s is disabled.'' [Str ''useCompleteSourceFilenameAsName''],
                 MaskLine ''c2VjcmV0'', MaskLine ''c2VjcmV0'',
                 InfoLine ''Processing file %s'' [Str ''a/report.txt''],
                 InfoLine ''target file name: %s'' [Str ''report.txt''],
                 DebugLine ''uploaded/updated file.'' []]\<rparr>)"
    by (simp add: main_defs run_defs)
  have r2: "main (demo_os (flag_inputs overwriteInput ''yes'') [''a/report.txt'']) demo_world =
     (Exit0,
      \<lparr>calls = [CreateReq (fileCreate (OsFile ''a/report.txt'') ''ROOT'' ''report.txt'' [])],
       open_files = [OsFile ''a/report.txt''],
       logged = [InfoLine ''files: %v'' [Strs [''a/report.txt'']],
                 InfoLine ''%s is disabled.'' [Str ''useCompleteSourceFilenameAsName''],
                 InfoLine ''%s is disabled.'' [Str ''mirrorDirectoryStructureInput''],
                 MaskLine ''c2VjcmV0'', MaskLine ''c2VjcmV0'',
                 InfoLine ''Processing file %s'' [Str ''a/report.txt''],
                 InfoLine ''target file name: %s'' [Str ''report.txt''],
                 DebugLine ''uploaded/updated file.'' []]\<rparr>)"
    by (simp add: main_defs run_defs)
  have r3: "main (demo_os (flag_inputs useCompleteSourceName ''yes'') [''a/report.txt''])
              demo_world =
     (Exit0,
      \<lparr>calls = [CreateReq (fileCreate (OsFile ''a/report.txt'') ''ROOT'' ''report.txt'' [])],
       open_files = [OsFile ''a/report.txt''],
       logged = [InfoLine ''files: %v'' [Strs [''a/report.txt'']],
                 WarningLine ''%s is disabled.'' [Str ''false''],
                 InfoLine ''%s is disabled.'' [Str ''mirrorDirectoryStructureInput''],
                 MaskLine ''c2VjcmV0'', MaskLine ''c2VjcmV0'',
                 InfoLine ''Processing file %s'' [Str ''a/report.txt''],
                 InfoLine ''target file name: %s'' [Str ''report.txt''],
                 DebugLine ''uploaded/updated file.'' []]\<rparr>)"
    by (simp add: main_defs run_defs)
  show ?thesis
    using a b r1 r2 r3
      unparseable_flag_is_false [OF a b,
        where os = "demo_os (flag_inputs mirrorDirectoryStructureInput ''yes'') [''a/report.txt'']"
          and w = demo_world and inputName = mirrorDirectoryStructureInput]
      unparseable_flag_is_false [OF a b,
        where os = "demo_os (flag_inputs overwriteInput ''yes'') [''a/report.txt'']"
          and w = demo_world and inputName = overwriteInput]
      unparseable_flag_is_false [OF a b,
        where os = "demo_os (flag_inputs useCompleteSourceName ''yes'') [''a/report.txt'']"
          and w = demo_world and inputName = useCompleteSourceName]
    by (simp add: e) (simp add: demo_os_def flag_inputs_def)
qed

end
